theory Spec2Isabelle
  imports Main "HOL-Library.Sublist"
begin

section \<open>go-todo: the todo handlers of main.go over a document collection\<close>

text \<open>
  The program is one file, main.go: four HTTP handlers (fetchTodos, createTodo,
  deleteTodo, updateTodo) over the MongoDB collection "todos", reached through the mgo
  driver. The handlers are embedded statement by statement. What they call is embedded
  as far as the handlers depend on it:
  \<^item> Go strings are byte strings (\<open>string\<close>, a \<open>char list\<close>);
  \<^item> \<open>strings.TrimSpace\<close>, \<open>bson.IsObjectIdHex\<close>, \<open>bson.ObjectIdHex\<close>,
    \<open>ObjectId.Hex\<close> and \<open>encoding/hex\<close> are written out;
  \<^item> the collection is the list of its documents, a document an association list from
    field names to values; \<open>Insert\<close>, \<open>Find(bson.M{}).All\<close>, \<open>RemoveId\<close> and
    \<open>Update\<close> follow the behaviour of mgo on a session in safe mode (what
    \<open>mgo.Dial\<close> returns, and \<open>init\<close> leaves so);
  \<^item> a \<open>todoModel\<close> is encoded and decoded by mgo's bson package as its struct tags
    say, and the reading of the tags is written out: it panics on a flag it does not
    know;
  \<^item> the JSON decoder is not written out: a request carries the outcome of
    \<open>json.NewDecoder(r.Body).Decode(&t)\<close>, an error or the decoded \<open>todo\<close>;
  \<^item> \<open>bson.NewObjectId()\<close> and \<open>time.Now()\<close> are read from the environment of the
    call, as is a failure of the database connection.
\<close>

subsection \<open>Data model\<close>

text \<open>\<open>bson.ObjectId\<close> is a Go string holding the raw bytes of the identifier.\<close>

type_synonym objectid = string

text \<open>
  An instant, counted from the zero value of \<open>time.Time\<close>. The rounding to
  milliseconds of a time that is stored is not modelled.
\<close>

type_synonym time = int

text \<open>
  The two structs of main.go. Both have the fields ID, Title, Completed and CreatedAt;
  those of \<open>todoModel\<close> carry the prefix \<open>tm_\<close> here.
\<close>

record todoModel =
  tm_ID :: objectid
  tm_Title :: string
  tm_Completed :: bool
  tm_CreatedAt :: time

record todo =
  ID :: string
  Title :: string
  Completed :: bool
  CreatedAt :: time

text \<open>
  The bson tags of the four fields of \<open>todoModel\<close>, as main.go writes them. The first
  has a space after its comma.
\<close>

definition todoModel_tags :: "string list" where
  "todoModel_tags = [''_id, omitempty'', ''title'', ''completed'', ''created_at'']"

datatype bson_value = BObjectId objectid | BString string | BBool bool | BTime time

type_synonym document = "(string \<times> bson_value) list"

datatype db_error = ErrNotFound | ErrDuplicateKey | ErrConnection string

text \<open>
  What a call of the driver that encodes or decodes a struct comes to: a value, an
  error, or a panic.
\<close>

datatype 'a result = Ok 'a | Err db_error | Panics string

datatype jvalue = JString string | JError db_error | JTodos "todo list"

text \<open>
  What \<open>rnd.JSON(w, status, v)\<close> is given as \<open>v\<close>: a \<open>renderer.M\<close>, or the error of
  the JSON decoder.
\<close>

datatype content = M "(string \<times> jvalue) list" | DecodeError string

text \<open>
  What a handler leaves on the response writer: nothing, one call of \<open>rnd.JSON\<close> with
  its status code and value, or a panic.
\<close>

datatype reply = Silent | JSON nat content | Panic string

abbreviation StatusProcessing :: nat where "StatusProcessing \<equiv> 102"
abbreviation StatusOK :: nat where "StatusOK \<equiv> 200"
abbreviation StatusCreated :: nat where "StatusCreated \<equiv> 201"
abbreviation StatusBadRequest :: nat where "StatusBadRequest \<equiv> 400"

record request =
  url_id :: string
  body :: "string + todo"

record env =
  fault :: "db_error option"
  new_oid :: objectid
  now :: time

subsection \<open>strings.TrimSpace\<close>

text \<open>
  \<open>TrimSpace\<close> removes leading and trailing white space as defined by Unicode. A Go
  string is UTF-8, so a white space rune is the byte sequence that encodes it; a byte
  that starts no such sequence ends the trimming, as a rune that is no space (or an
  invalid encoding, read as \<open>utf8.RuneError\<close>) does in Go. \<open>space_seqs\<close> lists the
  encodings of the runes of \<open>unicode.White_Space\<close>: U+0009 to U+000D, U+0020, U+0085,
  U+00A0, U+1680, U+2000 to U+200A, U+2028, U+2029, U+202F, U+205F and U+3000.
\<close>

definition space_seqs :: "string list" where
  "space_seqs =
     [[CHR 0x09], [CHR 0x0A], [CHR 0x0B], [CHR 0x0C], [CHR 0x0D], [CHR 0x20],
      [CHR 0xC2, CHR 0x85], [CHR 0xC2, CHR 0xA0], [CHR 0xE1, CHR 0x9A, CHR 0x80],
      [CHR 0xE2, CHR 0x80, CHR 0x80], [CHR 0xE2, CHR 0x80, CHR 0x81],
      [CHR 0xE2, CHR 0x80, CHR 0x82], [CHR 0xE2, CHR 0x80, CHR 0x83],
      [CHR 0xE2, CHR 0x80, CHR 0x84], [CHR 0xE2, CHR 0x80, CHR 0x85],
      [CHR 0xE2, CHR 0x80, CHR 0x86], [CHR 0xE2, CHR 0x80, CHR 0x87],
      [CHR 0xE2, CHR 0x80, CHR 0x88], [CHR 0xE2, CHR 0x80, CHR 0x89],
      [CHR 0xE2, CHR 0x80, CHR 0x8A], [CHR 0xE2, CHR 0x80, CHR 0xA8],
      [CHR 0xE2, CHR 0x80, CHR 0xA9], [CHR 0xE2, CHR 0x80, CHR 0xAF],
      [CHR 0xE2, CHR 0x81, CHR 0x9F], [CHR 0xE3, CHR 0x80, CHR 0x80]]"

text \<open>
  \<open>space_width s\<close> is the number of bytes of the white space rune that \<open>s\<close>
  starts with, \<open>last_space_width s\<close> of the one it ends with; 0 when there is none.
\<close>

definition space_width :: "string \<Rightarrow> nat" where
  "space_width s =
     (case List.find (\<lambda>q. prefix q s) space_seqs of None \<Rightarrow> 0 | Some q \<Rightarrow> length q)"

definition last_space_width :: "string \<Rightarrow> nat" where
  "last_space_width s =
     (case List.find (\<lambda>q. suffix q s) space_seqs of None \<Rightarrow> 0 | Some q \<Rightarrow> length q)"

function TrimLeft :: "string \<Rightarrow> string" where
  "TrimLeft s = (if space_width s = 0 then s else TrimLeft (drop (space_width s) s))"
  by pat_completeness auto
termination
proof (relation "measure length")
  fix s :: string
  assume w: "space_width s \<noteq> 0"
  have "List.find (\<lambda>q. prefix q []) space_seqs = None"
    by (auto simp: find_None_iff space_seqs_def)
  then have "space_width [] = 0" by (simp add: space_width_def)
  with w have "s \<noteq> []" by auto
  with w show "(drop (space_width s) s, s) \<in> measure length" by simp
qed simp

function TrimRight :: "string \<Rightarrow> string" where
  "TrimRight s =
     (if last_space_width s = 0 then s
      else TrimRight (take (length s - last_space_width s) s))"
  by pat_completeness auto
termination
proof (relation "measure length")
  fix s :: string
  assume w: "last_space_width s \<noteq> 0"
  have "List.find (\<lambda>q. suffix q []) space_seqs = None"
    by (auto simp: find_None_iff space_seqs_def)
  then have "last_space_width [] = 0" by (simp add: last_space_width_def)
  with w have "s \<noteq> []" by auto
  with w show "(take (length s - last_space_width s) s, s) \<in> measure length" by simp
qed simp

declare TrimLeft.simps [simp del] TrimRight.simps [simp del]

definition TrimSpace :: "string \<Rightarrow> string" where
  "TrimSpace s = TrimRight (TrimLeft s)"

text \<open>The bytes of UTF-8: a continuation byte, and the length that a leading byte announces.\<close>

definition continuation :: "char \<Rightarrow> bool" where
  "continuation c = (0x80 \<le> (of_char c :: nat) \<and> (of_char c :: nat) < 0xC0)"

definition lead_width :: "char \<Rightarrow> nat" where
  "lead_width c =
     (if (of_char c :: nat) < 0x80 then 1 else if (of_char c :: nat) < 0xE0 then 2 else 3)"

subsection \<open>encoding/hex and bson.ObjectId\<close>

definition hextable :: string where
  "hextable = ''0123456789abcdef''"

fun EncodeToString :: "string \<Rightarrow> string" where
  "EncodeToString [] = []"
| "EncodeToString (v # src) =
     hextable ! (of_char v div 16) # hextable ! (of_char v mod 16) # EncodeToString src"

definition fromHexChar :: "char \<Rightarrow> nat option" where
  "fromHexChar c =
     (let n = of_char c :: nat in
      if 48 \<le> n \<and> n \<le> 57 then Some (n - 48)
      else if 97 \<le> n \<and> n \<le> 102 then Some (n - 97 + 10)
      else if 65 \<le> n \<and> n \<le> 70 then Some (n - 65 + 10)
      else None)"

text \<open>\<open>None\<close> is the error of \<open>hex.DecodeString\<close>: an odd length or a byte that is no hex digit.\<close>

fun DecodeString :: "string \<Rightarrow> string option" where
  "DecodeString [] = Some []"
| "DecodeString [a] = None"
| "DecodeString (a # b # s) =
     (case fromHexChar a of
        None \<Rightarrow> None
      | Some h \<Rightarrow>
          (case fromHexChar b of
             None \<Rightarrow> None
           | Some l \<Rightarrow>
               (case DecodeString s of
                  None \<Rightarrow> None
                | Some d \<Rightarrow> Some (char_of (h * 16 + l) # d))))"

definition IsObjectIdHex :: "string \<Rightarrow> bool" where
  "IsObjectIdHex s = (if length s \<noteq> 24 then False else DecodeString s \<noteq> None)"

text \<open>\<open>None\<close> is the panic of \<open>bson.ObjectIdHex\<close> on an invalid input.\<close>

definition ObjectIdHex :: "string \<Rightarrow> objectid option" where
  "ObjectIdHex s =
     (case DecodeString s of
        None \<Rightarrow> None
      | Some d \<Rightarrow> if length d \<noteq> 12 then None else Some d)"

definition Hex :: "objectid \<Rightarrow> string" where
  "Hex oid = EncodeToString oid"

subsection \<open>The struct tags and the bson encoding of todoModel\<close>

text \<open>
  How the bson package reads the tags of a struct (\<open>getStructInfo\<close>): a tag is split at
  its commas, the first part is the key of the field, and every further part must be one
  of the flags omitempty, minsize and inline; on any other flag it panics. The flags are
  compared as they stand, without trimming. Of the flags, only omitempty has an effect
  on the fields of \<open>todoModel\<close>.
\<close>

fun strings_Split :: "string \<Rightarrow> string list" where
  "strings_Split [] = [[]]"
| "strings_Split (c # s) =
     (if c = CHR '','' then [] # strings_Split s
      else (case strings_Split s of [] \<Rightarrow> [[c]] | f # fs \<Rightarrow> (c # f) # fs))"

definition quoted :: "string \<Rightarrow> string" where
  "quoted s = [CHR 0x22] @ s @ [CHR 0x22]"

definition Unsupported_flag :: "string \<Rightarrow> string \<Rightarrow> string" where
  "Unsupported_flag flag tag =
     ''Unsupported flag '' @ quoted flag @ '' in tag '' @ quoted tag @ '' of type main.todoModel''"

text \<open>\<open>Inl\<close> is the panic, \<open>Inr\<close> tells whether omitempty is among the flags.\<close>

fun read_flags :: "string \<Rightarrow> string list \<Rightarrow> string + bool" where
  "read_flags tag [] = Inr False"
| "read_flags tag (flag # flags) =
     (if flag = ''omitempty'' then
        (case read_flags tag flags of Inl p \<Rightarrow> Inl p | Inr oe \<Rightarrow> Inr True)
      else if flag = ''minsize'' \<or> flag = ''inline'' then read_flags tag flags
      else Inl (Unsupported_flag flag tag))"

definition read_tag :: "string \<Rightarrow> string + string \<times> bool" where
  "read_tag tag =
     (case strings_Split tag of
        [] \<Rightarrow> Inr (tag, False)
      | key # flags \<Rightarrow>
          (case read_flags tag flags of Inl p \<Rightarrow> Inl p | Inr oe \<Rightarrow> Inr (key, oe)))"

fun getStructInfo :: "string list \<Rightarrow> string + (string \<times> bool) list" where
  "getStructInfo [] = Inr []"
| "getStructInfo (tag # tags) =
     (case read_tag tag of
        Inl p \<Rightarrow> Inl p
      | Inr info \<Rightarrow>
          (case getStructInfo tags of Inl p \<Rightarrow> Inl p | Inr infos \<Rightarrow> Inr (info # infos)))"

text \<open>
  \<open>marshal\<close> is the encoding of a \<open>todoModel\<close> that \<open>Insert\<close> sends,
  \<open>unmarshal\<close> the decoding of a stored document that \<open>All\<close> does; \<open>Inl\<close> is
  the panic of \<open>getStructInfo\<close>. A field with omitempty is left out of the encoding when
  it has its zero value. A field that the document lacks, or holds with another type,
  keeps its zero value in the decoding.
\<close>

definition is_zero :: "bson_value \<Rightarrow> bool" where
  "is_zero v =
     (case v of BObjectId i \<Rightarrow> i = [] | BString s \<Rightarrow> s = [] | BBool b \<Rightarrow> \<not> b | BTime t \<Rightarrow> t = 0)"

fun encode :: "(string \<times> bool) list \<Rightarrow> bson_value list \<Rightarrow> document" where
  "encode ((key, oe) # infos) (v # vs) =
     (if oe \<and> is_zero v then encode infos vs else (key, v) # encode infos vs)"
| "encode infos vs = []"

definition marshal :: "todoModel \<Rightarrow> string + document" where
  "marshal tm =
     (case getStructInfo todoModel_tags of
        Inl p \<Rightarrow> Inl p
      | Inr infos \<Rightarrow>
          Inr (encode infos
                 [BObjectId (tm_ID tm), BString (tm_Title tm), BBool (tm_Completed tm),
                  BTime (tm_CreatedAt tm)]))"

definition unmarshal :: "document \<Rightarrow> string + todoModel" where
  "unmarshal d =
     (case getStructInfo todoModel_tags of
        Inl p \<Rightarrow> Inl p
      | Inr infos \<Rightarrow>
          Inr \<lparr>tm_ID = (case map_of d (fst (infos ! 0)) of Some (BObjectId i) \<Rightarrow> i | _ \<Rightarrow> []),
               tm_Title = (case map_of d (fst (infos ! 1)) of Some (BString s) \<Rightarrow> s | _ \<Rightarrow> []),
               tm_Completed =
                 (case map_of d (fst (infos ! 2)) of Some (BBool b) \<Rightarrow> b | _ \<Rightarrow> False),
               tm_CreatedAt =
                 (case map_of d (fst (infos ! 3)) of Some (BTime t) \<Rightarrow> t | _ \<Rightarrow> 0)\<rparr>)"

subsection \<open>The collection\<close>

text \<open>The selector \<open>bson.M{"_id": oid}\<close>.\<close>

definition matches_id :: "objectid \<Rightarrow> document \<Rightarrow> bool" where
  "matches_id oid d = (map_of d ''_id'' = Some (BObjectId oid))"

text \<open>
  \<open>Find(bson.M{}).All(&todos)\<close>: without a connection it returns the error; with one,
  it decodes every document of the collection into a \<open>todoModel\<close>, in the order of the
  collection. With no document there is nothing to decode.
\<close>

fun unmarshal_all :: "document list \<Rightarrow> todoModel list result" where
  "unmarshal_all [] = Ok []"
| "unmarshal_all (d # ds) =
     (case unmarshal d of
        Inl p \<Rightarrow> Panics p
      | Inr tm \<Rightarrow>
          (case unmarshal_all ds of Ok tms \<Rightarrow> Ok (tm # tms) | Err err \<Rightarrow> Err err
           | Panics p \<Rightarrow> Panics p))"

definition Find_All :: "db_error option \<Rightarrow> document list \<Rightarrow> todoModel list result" where
  "Find_All flt ds = (case flt of Some err \<Rightarrow> Err err | None \<Rightarrow> unmarshal_all ds)"

text \<open>
  \<open>Insert(tm)\<close>: without a connection it returns the error; with one, it encodes the
  \<open>todoModel\<close> and sends the document, and the server refuses a second document with
  the same \<open>_id\<close>.
\<close>

definition Insert :: "db_error option \<Rightarrow> todoModel \<Rightarrow> document list \<Rightarrow> document list result" where
  "Insert flt tm ds =
     (case flt of
        Some err \<Rightarrow> Err err
      | None \<Rightarrow>
          (case marshal tm of
             Inl p \<Rightarrow> Panics p
           | Inr doc \<Rightarrow>
               if map_of doc ''_id'' \<in> set (map (\<lambda>d. map_of d ''_id'') ds) then Err ErrDuplicateKey
               else Ok (ds @ [doc])))"

fun remove_first :: "('a \<Rightarrow> bool) \<Rightarrow> 'a list \<Rightarrow> 'a list option" where
  "remove_first P [] = None"
| "remove_first P (x # xs) =
     (if P x then Some xs
      else (case remove_first P xs of None \<Rightarrow> None | Some ys \<Rightarrow> Some (x # ys)))"

fun update_first :: "('a \<Rightarrow> bool) \<Rightarrow> ('a \<Rightarrow> 'a) \<Rightarrow> 'a list \<Rightarrow> 'a list option" where
  "update_first P f [] = None"
| "update_first P f (x # xs) =
     (if P x then Some (f x # xs)
      else (case update_first P f xs of None \<Rightarrow> None | Some ys \<Rightarrow> Some (x # ys)))"

text \<open>
  \<open>RemoveId(oid)\<close> is \<open>Remove(bson.M{"_id": oid})\<close>: it removes a single document
  matching the selector and, in safe mode, returns \<open>ErrNotFound\<close> when there is none.
\<close>

definition RemoveId :: "db_error option \<Rightarrow> objectid \<Rightarrow> document list \<Rightarrow> db_error + document list" where
  "RemoveId flt oid ds =
     (case flt of
        Some err \<Rightarrow> Inl err
      | None \<Rightarrow>
          (case remove_first (matches_id oid) ds of
             None \<Rightarrow> Inl ErrNotFound
           | Some ds' \<Rightarrow> Inr ds'))"

text \<open>
  \<open>Update(selector, update)\<close> modifies a single document matching the selector and, in
  safe mode, returns \<open>ErrNotFound\<close> when there is none. An update document whose keys
  are plain field names, not \<open>$\<close> operators, is a replacement: the matched document
  becomes the update document, keeping only its \<open>_id\<close>.
\<close>

definition replacement :: "document \<Rightarrow> document \<Rightarrow> document" where
  "replacement upd old =
     (case map_of old ''_id'' of None \<Rightarrow> upd | Some i \<Rightarrow> (''_id'', i) # upd)"

definition Update :: "db_error option \<Rightarrow> objectid \<Rightarrow> document \<Rightarrow> document list \<Rightarrow> db_error + document list" where
  "Update flt oid upd ds =
     (case flt of
        Some err \<Rightarrow> Inl err
      | None \<Rightarrow>
          (case update_first (matches_id oid) (replacement upd) ds of
             None \<Rightarrow> Inl ErrNotFound
           | Some ds' \<Rightarrow> Inr ds'))"

subsection \<open>The handlers\<close>

definition wire :: "todoModel \<Rightarrow> todo" where
  "wire t = \<lparr>ID = Hex (tm_ID t), Title = tm_Title t, Completed = tm_Completed t,
             CreatedAt = tm_CreatedAt t\<rparr>"

definition fetchTodos :: "env \<Rightarrow> document list \<Rightarrow> reply \<times> document list" where
  "fetchTodos e ds =
     (case Find_All (fault e) ds of
        Panics p \<Rightarrow> (Panic p, ds)
      | Err err \<Rightarrow>
          (JSON StatusProcessing
             (M [(''message'', JString ''Failed to fetch the Todos.''), (''error'', JError err)]), ds)
      | Ok todos \<Rightarrow>
          (JSON StatusOK (M [(''data'', JTodos (map wire todos))]), ds))"

definition createTodo :: "env \<Rightarrow> request \<Rightarrow> document list \<Rightarrow> reply \<times> document list" where
  "createTodo e r ds =
     (case body r of
        Inl err \<Rightarrow> (JSON StatusProcessing (DecodeError err), ds)
      | Inr t \<Rightarrow>
          if Title t = [] then
            (JSON StatusBadRequest (M [(''message'', JString ''Todo had no title!'')]), ds)
          else
            let tm = \<lparr>tm_ID = new_oid e, tm_Title = Title t, tm_Completed = Completed t,
                      tm_CreatedAt = now e\<rparr>
            in (case Insert (fault e) tm ds of
                  Panics p \<Rightarrow> (Panic p, ds)
                | Err err \<Rightarrow>
                    (JSON StatusProcessing (M [(''message'', JString ''Failed to save todo.'')]), ds)
                | Ok ds' \<Rightarrow>
                    (JSON StatusCreated
                       (M [(''message'', JString ''Todo created successfully!''),
                           (''todo_id'', JString (Hex (tm_ID tm)))]), ds')))"

definition deleteTodo :: "env \<Rightarrow> request \<Rightarrow> document list \<Rightarrow> reply \<times> document list" where
  "deleteTodo e r ds =
     (let id = TrimSpace (url_id r) in
      if \<not> IsObjectIdHex id then
        (JSON StatusBadRequest (M [(''message'', JString ''Id is invalid!'')]), ds)
      else
        (case ObjectIdHex id of
           None \<Rightarrow> (Panic ''invalid input to ObjectIdHex'', ds)
         | Some oid \<Rightarrow>
             (case RemoveId (fault e) oid ds of
                Inl err \<Rightarrow>
                  (JSON StatusProcessing
                     (M [(''message'', JString ''Failed to delete todo!''),
                         (''todo_id'', JString id)]), ds)
              | Inr ds' \<Rightarrow>
                  (JSON StatusOK
                     (M [(''message'', JString ''Todo deleted succesfully!''),
                         (''todo_id'', JString id)]), ds'))))"

definition updateTodo :: "env \<Rightarrow> request \<Rightarrow> document list \<Rightarrow> reply \<times> document list" where
  "updateTodo e r ds =
     (let id = TrimSpace (url_id r) in
      if \<not> IsObjectIdHex id then
        (JSON StatusBadRequest (M [(''message'', JString ''The id is invalid!'')]), ds)
      else
        (case body r of
           Inl err \<Rightarrow> (JSON StatusProcessing (DecodeError err), ds)
         | Inr t \<Rightarrow>
             if Title t = [] then
               (JSON StatusBadRequest (M [(''message'', JString ''The title is empty!'')]), ds)
             else
               (case ObjectIdHex id of
                  None \<Rightarrow> (Panic ''invalid input to ObjectIdHex'', ds)
                | Some oid \<Rightarrow>
                    (case Update (fault e) oid
                            [(''title'', BString (Title t)), (''completed'', BBool (Completed t))] ds of
                       Inl err \<Rightarrow>
                         (JSON StatusProcessing
                            (M [(''message'', JString ''Failed to update todo!''),
                                (''error'', JError err)]), ds)
                     | Inr ds' \<Rightarrow> (Silent, ds')))))"

subsection \<open>The router and runs of the service\<close>

text \<open>
  \<open>todoHandlers\<close> routes \<open>GET /\<close>, \<open>POST /\<close>, \<open>PUT /{id}\<close> and
  \<open>DELETE /{id}\<close> to the four handlers. A run serves a sequence of calls, each in its
  own environment, and \<open>run\<close> gives the collection it leaves.
\<close>

datatype call = GET | POST request | PUT request | DELETE request

definition todoHandlers :: "env \<Rightarrow> call \<Rightarrow> document list \<Rightarrow> reply \<times> document list" where
  "todoHandlers e c ds =
     (case c of
        GET \<Rightarrow> fetchTodos e ds
      | POST r \<Rightarrow> createTodo e r ds
      | PUT r \<Rightarrow> updateTodo e r ds
      | DELETE r \<Rightarrow> deleteTodo e r ds)"

fun run :: "(env \<times> call) list \<Rightarrow> document list \<Rightarrow> document list" where
  "run [] ds = ds"
| "run ((e, c) # cs) ds = run cs (snd (todoHandlers e c ds))"

subsection \<open>Notions used to state the properties\<close>

text \<open>The status code a handler wrote, if it wrote a response.\<close>

definition status_of :: "reply \<Rightarrow> nat option" where
  "status_of rp = (case rp of JSON st c \<Rightarrow> Some st | _ \<Rightarrow> None)"

text \<open>The server keeps \<open>_id\<close> unique within a collection.\<close>

definition unique_ids :: "document list \<Rightarrow> bool" where
  "unique_ids ds = distinct (map (\<lambda>d. map_of d ''_id'') ds)"

text \<open>The todos that a list response carries.\<close>

definition listed :: "reply \<Rightarrow> todo list" where
  "listed rp = (case rp of JSON st (M [(k, JTodos l)]) \<Rightarrow> l | _ \<Rightarrow> [])"

subsection \<open>Facts about strings.TrimSpace\<close>

lemma space_seqs_nonempty: "q \<in> set space_seqs \<Longrightarrow> q \<noteq> []"
  by (auto simp: space_seqs_def)

lemma space_seqs_ends:
  "q \<in> set space_seqs \<Longrightarrow> fromHexChar (hd q) = None \<and> fromHexChar (last q) = None"
  by (auto simp: space_seqs_def fromHexChar_def)

lemma space_seqs_shape:
  "q \<in> set space_seqs \<Longrightarrow>
     length q = lead_width (hd q) \<and> \<not> continuation (hd q) \<and> (\<forall>c\<in>set (tl q). continuation c)"
  by (auto simp: space_seqs_def lead_width_def continuation_def)

lemma find_unique:
  assumes "x \<in> set xs" and "P x" and "\<forall>y\<in>set xs. P y \<longrightarrow> y = x"
  shows "List.find P xs = Some x"
  using assms
proof (induction xs)
  case Nil
  then show ?case by simp
next
  case (Cons a xs)
  show ?case
  proof (cases "P a")
    case True
    with Cons.prems have "a = x" by simp
    with True show ?thesis by simp
  next
    case False
    with Cons.prems have mem: "x \<in> set xs" by auto
    from Cons.prems(3) have uniq: "\<forall>y\<in>set xs. P y \<longrightarrow> y = x" by simp
    from Cons.IH [OF mem Cons.prems(2) uniq] False show ?thesis by simp
  qed
qed

lemma space_seqs_prefix_unique:
  assumes "q \<in> set space_seqs" "q' \<in> set space_seqs" "prefix q' (q @ s)"
  shows "q' = q"
proof -
  from assms obtain a r a' r' where q: "q = a # r" and q': "q' = a' # r'"
    by (metis list.exhaust space_seqs_nonempty)
  with assms(3) have "a' = a" by simp
  with q q' space_seqs_shape [OF assms(1)] space_seqs_shape [OF assms(2)]
  have "length q' = length q" by simp
  with assms(3) show ?thesis by (auto simp: prefix_def)
qed

lemma space_width_seq: "q \<in> set space_seqs \<Longrightarrow> space_width (q @ s) = length q"
proof -
  assume q: "q \<in> set space_seqs"
  have "prefix q (q @ s)" by simp
  with q have "List.find (\<lambda>x. prefix x (q @ s)) space_seqs = Some q"
    using space_seqs_prefix_unique [OF q] by (intro find_unique) blast+
  then show ?thesis by (simp add: space_width_def)
qed

lemma TrimLeft_seq: "q \<in> set space_seqs \<Longrightarrow> TrimLeft (q @ s) = TrimLeft s"
  using space_seqs_nonempty [of q] by (subst TrimLeft.simps) (simp add: space_width_seq)

lemma space_seqs_suffix_unique:
  assumes "q \<in> set space_seqs" "q' \<in> set space_seqs" "suffix q' (s @ q)"
  shows "q' = q"
proof -
  from assms obtain a r a' r' where q: "q = a # r" and q': "q' = a' # r'"
    by (metis list.exhaust space_seqs_nonempty)
  from assms(3) consider z where "q = z @ q'" | z where "q' = z @ q"
    by (auto simp: suffix_def append_eq_append_conv2)
  then show ?thesis
  proof cases
    case 1
    show ?thesis
    proof (cases z)
      case Nil with 1 show ?thesis by simp
    next
      case (Cons b z')
      with 1 q q' have "a' \<in> set (tl q)" by auto
      with space_seqs_shape [OF assms(1)] space_seqs_shape [OF assms(2)] q' show ?thesis by auto
    qed
  next
    case 2
    show ?thesis
    proof (cases z)
      case Nil with 2 show ?thesis by simp
    next
      case (Cons b z')
      with 2 q q' have "a \<in> set (tl q')" by auto
      with space_seqs_shape [OF assms(1)] space_seqs_shape [OF assms(2)] q show ?thesis by auto
    qed
  qed
qed

lemma last_space_width_seq: "q \<in> set space_seqs \<Longrightarrow> last_space_width (s @ q) = length q"
proof -
  assume q: "q \<in> set space_seqs"
  have "suffix q (s @ q)" by (rule suffixI) simp
  with q have "List.find (\<lambda>x. suffix x (s @ q)) space_seqs = Some q"
    using space_seqs_suffix_unique [OF q] by (intro find_unique) blast+
  then show ?thesis by (simp add: last_space_width_def)
qed

lemma TrimRight_seq: "q \<in> set space_seqs \<Longrightarrow> TrimRight (s @ q) = TrimRight s"
  using space_seqs_nonempty [of q] by (subst TrimRight.simps) (simp add: last_space_width_seq)

lemma space_width_hex: "fromHexChar c \<noteq> None \<Longrightarrow> space_width (c # s) = 0"
proof -
  assume c: "fromHexChar c \<noteq> None"
  have "\<not> prefix q (c # s)" if "q \<in> set space_seqs" for q
    using space_seqs_ends [OF that] space_seqs_nonempty [OF that] c by (cases q) auto
  then have "List.find (\<lambda>q. prefix q (c # s)) space_seqs = None"
    by (auto simp: find_None_iff)
  then show ?thesis by (simp add: space_width_def)
qed

lemma last_space_width_hex: "fromHexChar c \<noteq> None \<Longrightarrow> last_space_width (s @ [c]) = 0"
proof -
  assume c: "fromHexChar c \<noteq> None"
  have "\<not> suffix q (s @ [c])" if "q \<in> set space_seqs" for q
    using space_seqs_ends [OF that] space_seqs_nonempty [OF that] c
    by (cases q rule: rev_cases) auto
  then have "List.find (\<lambda>q. suffix q (s @ [c])) space_seqs = None"
    by (auto simp: find_None_iff)
  then show ?thesis by (simp add: last_space_width_def)
qed

lemma TrimLeft_concat:
  "set ql \<subseteq> set space_seqs \<Longrightarrow> fromHexChar c \<noteq> None \<Longrightarrow> TrimLeft (concat ql @ c # s) = c # s"
proof (induction ql)
  case Nil
  then show ?case by (subst TrimLeft.simps) (simp add: space_width_hex)
next
  case (Cons q ql)
  then show ?case by (simp add: TrimLeft_seq)
qed

lemma TrimRight_concat:
  "set qr \<subseteq> set space_seqs \<Longrightarrow> fromHexChar c \<noteq> None \<Longrightarrow> TrimRight (s @ [c] @ concat qr) = s @ [c]"
proof (induction qr rule: rev_induct)
  case Nil
  then show ?case by (subst TrimRight.simps) (simp add: last_space_width_hex)
next
  case (snoc q qr)
  then have "TrimRight (s @ [c] @ concat qr) = s @ [c]" by simp
  with TrimRight_seq [of q "s @ [c] @ concat qr"] snoc.prems show ?case by simp
qed

subsection \<open>Facts about encoding/hex and object ids\<close>

lemma DecodeString_length: "DecodeString s = Some d \<Longrightarrow> length s = 2 * length d"
  by (induction s arbitrary: d rule: DecodeString.induct) (auto split: option.splits)

lemma DecodeString_hex_chars: "DecodeString s = Some d \<Longrightarrow> c \<in> set s \<Longrightarrow> fromHexChar c \<noteq> None"
  by (induction s arbitrary: d rule: DecodeString.induct) (auto split: option.splits)

lemma IsObjectIdHex_ObjectIdHex:
  assumes "IsObjectIdHex s"
  obtains oid where "ObjectIdHex s = Some oid" and "length oid = 12"
proof -
  from assms obtain d where d: "DecodeString s = Some d" and l: "length s = 24"
    by (auto simp: IsObjectIdHex_def split: if_splits)
  from DecodeString_length [OF d] l have "length d = 12" by simp
  with d that show thesis by (simp add: ObjectIdHex_def)
qed

lemma IsObjectIdHex_ends:
  assumes "IsObjectIdHex s"
  obtains a m b where "s = a # m @ [b]" and "fromHexChar a \<noteq> None" and "fromHexChar b \<noteq> None"
proof -
  from assms obtain d where d: "DecodeString s = Some d" and l: "length s = 24"
    by (auto simp: IsObjectIdHex_def split: if_splits)
  from l obtain a t where s: "s = a # t" by (cases s) auto
  with l have "t \<noteq> []" by auto
  then obtain m b where t: "t = m @ [b]" by (cases t rule: rev_cases) auto
  from s t have "a \<in> set s" and "b \<in> set s" by auto
  with DecodeString_hex_chars [OF d] have "fromHexChar a \<noteq> None" and "fromHexChar b \<noteq> None"
    by blast+
  with s t that show thesis by blast
qed

lemma TrimSpace_ObjectIdHex:
  assumes "set ql \<subseteq> set space_seqs" and "set qr \<subseteq> set space_seqs" and "IsObjectIdHex s"
  shows "TrimSpace (concat ql @ s @ concat qr) = s"
proof -
  from assms(3) obtain a m b where s: "s = a # m @ [b]"
    and a: "fromHexChar a \<noteq> None" and b: "fromHexChar b \<noteq> None"
    by (rule IsObjectIdHex_ends)
  have "TrimLeft (concat ql @ a # (m @ [b] @ concat qr)) = a # (m @ [b] @ concat qr)"
    using assms(1) a by (rule TrimLeft_concat)
  moreover have "TrimRight ((a # m) @ [b] @ concat qr) = (a # m) @ [b]"
    using assms(2) b by (rule TrimRight_concat)
  ultimately show ?thesis by (simp add: TrimSpace_def s)
qed

lemma TrimSpace_ObjectIdHex_plain: "IsObjectIdHex s \<Longrightarrow> TrimSpace s = s"
  using TrimSpace_ObjectIdHex [of "[]" "[]" s] by simp

lemma length_EncodeToString: "length (EncodeToString x) = 2 * length x"
  by (induction x) auto

lemma hextable_nth: "k < 16 \<Longrightarrow> hextable ! k \<in> set hextable \<and> fromHexChar (hextable ! k) = Some k"
proof -
  assume "k < 16"
  then have "k = 0 \<or> k = 1 \<or> k = 2 \<or> k = 3 \<or> k = 4 \<or> k = 5 \<or> k = 6 \<or> k = 7 \<or> k = 8
      \<or> k = 9 \<or> k = 10 \<or> k = 11 \<or> k = 12 \<or> k = 13 \<or> k = 14 \<or> k = 15" by arith
  then show ?thesis by (elim disjE) (simp_all add: hextable_def fromHexChar_def)
qed

lemma of_char_nibbles: "(of_char v :: nat) div 16 < 16 \<and> (of_char v :: nat) mod 16 < 16"
proof -
  have "(of_char v :: nat) < 256" by (rule nat_of_char_less_256)
  then show ?thesis by arith
qed

lemma EncodeToString_lower_hex: "set (EncodeToString x) \<subseteq> set hextable"
proof (induction x)
  case Nil
  then show ?case by simp
next
  case (Cons v x)
  from of_char_nibbles [of v] hextable_nth [of "of_char v div 16"] hextable_nth [of "of_char v mod 16"]
  have "hextable ! (of_char v div 16) \<in> set hextable" and "hextable ! (of_char v mod 16) \<in> set hextable"
    by blast+
  with Cons show ?case by simp
qed

lemma DecodeString_EncodeToString: "DecodeString (EncodeToString x) = Some x"
proof (induction x)
  case Nil
  then show ?case by simp
next
  case (Cons v x)
  have c: "char_of ((of_char v :: nat) div 16 * 16 + (of_char v :: nat) mod 16) = v" by simp
  from of_char_nibbles [of v] hextable_nth [of "of_char v div 16"] hextable_nth [of "of_char v mod 16"]
  have "fromHexChar (hextable ! (of_char v div 16)) = Some (of_char v div 16)"
    and "fromHexChar (hextable ! (of_char v mod 16)) = Some (of_char v mod 16)"
    by blast+
  with Cons c show ?case by simp
qed

lemma Hex_inject:
  assumes "Hex x = Hex y"
  shows "x = y"
proof -
  from assms have "DecodeString (EncodeToString x) = DecodeString (EncodeToString y)"
    by (simp only: Hex_def)
  then show ?thesis by (simp only: DecodeString_EncodeToString option.inject)
qed

lemma Hex_ObjectId:
  assumes "length oid = 12"
  shows "length (Hex oid) = 24" and "IsObjectIdHex (Hex oid)" and "ObjectIdHex (Hex oid) = Some oid"
    and "TrimSpace (Hex oid) = Hex oid"
proof -
  show l: "length (Hex oid) = 24" using assms by (simp add: Hex_def length_EncodeToString)
  show h: "IsObjectIdHex (Hex oid)"
    using l by (simp add: IsObjectIdHex_def Hex_def DecodeString_EncodeToString)
  show "ObjectIdHex (Hex oid) = Some oid"
    using assms by (simp add: ObjectIdHex_def Hex_def DecodeString_EncodeToString)
  show "TrimSpace (Hex oid) = Hex oid" using h by (rule TrimSpace_ObjectIdHex_plain)
qed

subsection \<open>Sample values\<close>

lemma sample_Hex: "Hex ''abcdefghijkl'' = ''6162636465666768696a6b6c''"
  by (simp add: Hex_def hextable_def)

lemma sample_id:
  "IsObjectIdHex ''6162636465666768696a6b6c''"
  "ObjectIdHex ''6162636465666768696a6b6c'' = Some ''abcdefghijkl''"
  "TrimSpace ''6162636465666768696a6b6c'' = ''6162636465666768696a6b6c''"
  using Hex_ObjectId [of "''abcdefghijkl''"] by (simp_all add: sample_Hex)

lemma sample_malformed:
  "TrimSpace ''not-an-id'' = ''not-an-id''"
  by (simp add: TrimSpace_def TrimLeft.simps TrimRight.simps space_width_def last_space_width_def
      space_seqs_def suffix_to_prefix)

lemma sample_blank: "TrimSpace ''  '' = []"
  by (simp add: TrimSpace_def TrimLeft.simps TrimRight.simps space_width_def last_space_width_def
      space_seqs_def suffix_to_prefix)

subsection \<open>Facts about the struct tags\<close>

text \<open>
  The tag of the field ID has the flag " omitempty", with a leading space, which is none
  of the three flags: reading the tags of \<open>todoModel\<close> panics, and so does every
  encoding and decoding of a \<open>todoModel\<close>. Without the space the tags are read.
\<close>

lemma getStructInfo_todoModel:
  "getStructInfo todoModel_tags = Inl (Unsupported_flag '' omitempty'' ''_id, omitempty'')"
  by (simp add: todoModel_tags_def read_tag_def)

lemma getStructInfo_without_space:
  "getStructInfo [''_id,omitempty'', ''title'', ''completed'', ''created_at'']
     = Inr [(''_id'', True), (''title'', False), (''completed'', False), (''created_at'', False)]"
  by (simp add: read_tag_def)

lemma marshal_panics: "marshal tm = Inl (Unsupported_flag '' omitempty'' ''_id, omitempty'')"
  by (simp add: marshal_def getStructInfo_todoModel)

lemma unmarshal_panics: "unmarshal d = Inl (Unsupported_flag '' omitempty'' ''_id, omitempty'')"
  by (simp add: unmarshal_def getStructInfo_todoModel)

lemma Insert_result:
  "Insert flt tm ds =
     (case flt of
        Some err \<Rightarrow> Err err
      | None \<Rightarrow> Panics (Unsupported_flag '' omitempty'' ''_id, omitempty''))"
  by (simp add: Insert_def marshal_panics split: option.splits)

lemma Find_All_result:
  "Find_All flt ds =
     (case flt of
        Some err \<Rightarrow> Err err
      | None \<Rightarrow>
          if ds = [] then Ok [] else Panics (Unsupported_flag '' omitempty'' ''_id, omitempty''))"
  by (cases ds) (simp_all add: Find_All_def unmarshal_panics split: option.splits)

subsection \<open>Facts about the collection\<close>

lemma remove_first_None: "\<forall>d\<in>set ds. \<not> P d \<Longrightarrow> remove_first P ds = None"
  by (induction ds) auto

lemma remove_first_subset: "remove_first P ds = Some ds' \<Longrightarrow> set ds' \<subseteq> set ds"
  by (induction ds arbitrary: ds') (auto split: if_splits option.splits)

lemma remove_first_Some: "d \<in> set ds \<Longrightarrow> P d \<Longrightarrow> \<exists>ds'. remove_first P ds = Some ds'"
  by (induction ds) auto

lemma remove_first_unique:
  "unique_ids ds \<Longrightarrow> remove_first (matches_id oid) ds = Some ds' \<Longrightarrow>
     unique_ids ds' \<and> (\<forall>d\<in>set ds'. \<not> matches_id oid d)"
proof (induction ds arbitrary: ds')
  case Nil
  then show ?case by simp
next
  case (Cons x xs)
  show ?case
  proof (cases "matches_id oid x")
    case True
    with Cons.prems have "ds' = xs" by simp
    moreover from Cons.prems(1) True have "\<forall>d\<in>set xs. \<not> matches_id oid d"
      by (force simp: unique_ids_def matches_id_def)
    moreover from Cons.prems(1) have "unique_ids xs" by (simp add: unique_ids_def)
    ultimately show ?thesis by simp
  next
    case False
    with Cons.prems(2) obtain ys where ys: "remove_first (matches_id oid) xs = Some ys" and d: "ds' = x # ys"
      by (auto split: option.splits)
    from Cons.prems(1) have u: "unique_ids xs" by (simp add: unique_ids_def)
    from Cons.IH [OF u ys] have i: "unique_ids ys" and n: "\<forall>d\<in>set ys. \<not> matches_id oid d" by blast+
    from remove_first_subset [OF ys] Cons.prems(1) have "map_of x ''_id'' \<notin> (\<lambda>d. map_of d ''_id'') ` set ys"
      by (auto simp: unique_ids_def)
    with i have "unique_ids (x # ys)" by (simp add: unique_ids_def)
    with n False d show ?thesis by simp
  qed
qed

lemma update_first_None: "\<forall>d\<in>set ds. \<not> P d \<Longrightarrow> update_first P f ds = None"
  by (induction ds) auto

lemma update_first_Some:
  "d \<in> set ds \<Longrightarrow> P d \<Longrightarrow> \<exists>ds'. update_first P f ds = Some ds' \<and> (\<exists>x\<in>set ds. P x \<and> f x \<in> set ds')"
  by (induction ds) (auto split: option.splits)

lemma update_first_replaced:
  assumes "unique_ids ds" and "update_first (matches_id oid) f ds = Some ds'"
    and "d' \<in> set ds'" and "matches_id oid d'"
  shows "\<exists>x\<in>set ds. matches_id oid x \<and> d' = f x"
  using assms
proof (induction ds arbitrary: ds')
  case Nil
  then show ?case by simp
next
  case (Cons x xs)
  show ?case
  proof (cases "matches_id oid x")
    case True
    with Cons.prems(2) have ds': "ds' = f x # xs" by simp
    from Cons.prems(1) True have "\<forall>d\<in>set xs. \<not> matches_id oid d"
      by (force simp: unique_ids_def matches_id_def)
    with Cons.prems(3,4) ds' have "d' = f x" by auto
    with True show ?thesis by simp
  next
    case False
    with Cons.prems(2) obtain ys where ys: "update_first (matches_id oid) f xs = Some ys"
      and ds': "ds' = x # ys"
      by (auto split: option.splits)
    from Cons.prems(1) have u: "unique_ids xs" by (simp add: unique_ids_def)
    from Cons.prems(3,4) ds' False have "d' \<in> set ys" by auto
    from Cons.IH [OF u ys this Cons.prems(4)] show ?thesis by auto
  qed
qed

lemma replacement_id:
  "matches_id oid d \<Longrightarrow> map_of upd ''_id'' = None \<Longrightarrow>
     map_of (replacement upd d) ''_id'' = map_of d ''_id''"
  by (simp add: replacement_def matches_id_def)

lemma update_first_ids:
  "update_first (matches_id oid) (replacement upd) ds = Some ds' \<Longrightarrow> map_of upd ''_id'' = None \<Longrightarrow>
     map (\<lambda>d. map_of d ''_id'') ds' = map (\<lambda>d. map_of d ''_id'') ds"
  by (induction ds arbitrary: ds') (auto simp: replacement_id split: if_splits option.splits)

lemma no_match_ids:
  "(\<forall>d\<in>set ds. \<not> matches_id oid d) \<longleftrightarrow> Some (BObjectId oid) \<notin> set (map (\<lambda>d. map_of d ''_id'') ds)"
  by (force simp: matches_id_def)

subsection \<open>Statuses and replies of the handlers\<close>

lemma fetchTodos_reply:
  "fetchTodos e ds =
     (case fault e of
        Some err \<Rightarrow>
          (JSON StatusProcessing
             (M [(''message'', JString ''Failed to fetch the Todos.''), (''error'', JError err)]), ds)
      | None \<Rightarrow>
          if ds = [] then (JSON StatusOK (M [(''data'', JTodos [])]), ds)
          else (Panic (Unsupported_flag '' omitempty'' ''_id, omitempty''), ds))"
  by (simp add: fetchTodos_def Find_All_result split: option.splits)

lemma createTodo_reply:
  "createTodo e r ds =
     (case body r of
        Inl derr \<Rightarrow> (JSON StatusProcessing (DecodeError derr), ds)
      | Inr t \<Rightarrow>
          if Title t = [] then
            (JSON StatusBadRequest (M [(''message'', JString ''Todo had no title!'')]), ds)
          else
            (case fault e of
               Some err \<Rightarrow>
                 (JSON StatusProcessing (M [(''message'', JString ''Failed to save todo.'')]), ds)
             | None \<Rightarrow> (Panic (Unsupported_flag '' omitempty'' ''_id, omitempty''), ds)))"
  by (simp add: createTodo_def Insert_result Let_def split: sum.splits option.splits)

lemma deleteTodo_status:
  "status_of (fst (deleteTodo e r ds)) =
     (if \<not> IsObjectIdHex (TrimSpace (url_id r)) then Some StatusBadRequest
      else (case RemoveId (fault e) (the (ObjectIdHex (TrimSpace (url_id r)))) ds of
              Inl err \<Rightarrow> Some StatusProcessing
            | Inr ds' \<Rightarrow> Some StatusOK))"
proof (cases "IsObjectIdHex (TrimSpace (url_id r))")
  case True
  then obtain oid where "ObjectIdHex (TrimSpace (url_id r)) = Some oid"
    by (rule IsObjectIdHex_ObjectIdHex)
  with True show ?thesis
    by (simp add: deleteTodo_def status_of_def Let_def split: sum.splits)
next
  case False
  then show ?thesis by (simp add: deleteTodo_def status_of_def Let_def)
qed

lemma updateTodo_reply:
  "fst (updateTodo e r ds) =
     (if \<not> IsObjectIdHex (TrimSpace (url_id r)) then
        JSON StatusBadRequest (M [(''message'', JString ''The id is invalid!'')])
      else (case body r of
              Inl derr \<Rightarrow> JSON StatusProcessing (DecodeError derr)
            | Inr t \<Rightarrow>
                if Title t = [] then
                  JSON StatusBadRequest (M [(''message'', JString ''The title is empty!'')])
                else (case Update (fault e) (the (ObjectIdHex (TrimSpace (url_id r))))
                             [(''title'', BString (Title t)), (''completed'', BBool (Completed t))]
                             ds of
                        Inl err \<Rightarrow>
                          JSON StatusProcessing
                            (M [(''message'', JString ''Failed to update todo!''),
                                (''error'', JError err)])
                      | Inr ds' \<Rightarrow> Silent)))"
proof (cases "IsObjectIdHex (TrimSpace (url_id r))")
  case True
  then obtain oid where "ObjectIdHex (TrimSpace (url_id r)) = Some oid"
    by (rule IsObjectIdHex_ObjectIdHex)
  with True show ?thesis
    by (simp add: updateTodo_def Let_def split: sum.splits)
next
  case False
  then show ?thesis by (simp add: updateTodo_def Let_def)
qed

subsection \<open>What the handlers keep\<close>

lemma fetchTodos_collection: "snd (fetchTodos e ds) = ds"
  by (simp add: fetchTodos_reply split: option.splits)

lemma createTodo_collection: "snd (createTodo e r ds) = ds"
  by (simp add: createTodo_reply split: sum.splits option.splits)

lemma deleteTodo_collection:
  "snd (deleteTodo e r ds) = ds \<or>
     (\<exists>oid. remove_first (matches_id oid) ds = Some (snd (deleteTodo e r ds)))"
  by (auto simp: deleteTodo_def Let_def RemoveId_def split: sum.splits option.splits if_splits)

lemma updateTodo_collection:
  "map (\<lambda>d. map_of d ''_id'') (snd (updateTodo e r ds)) = map (\<lambda>d. map_of d ''_id'') ds"
proof -
  have "map (\<lambda>d. map_of d ''_id'') ds' = map (\<lambda>d. map_of d ''_id'') ds"
    if "Update (fault e) oid [(''title'', BString ti), (''completed'', BBool co)] ds = Inr ds'"
    for oid ti co ds'
    using that update_first_ids [of oid "[(''title'', BString ti), (''completed'', BBool co)]" ds ds']
    by (auto simp: Update_def split: option.splits)
  then show ?thesis
    by (auto simp: updateTodo_def Let_def split: sum.splits option.splits if_splits)
qed

lemma unique_ids_todoHandlers: "unique_ids ds \<Longrightarrow> unique_ids (snd (todoHandlers e c ds))"
proof (cases c)
  case GET
  then show "unique_ids ds \<Longrightarrow> ?thesis" by (simp add: todoHandlers_def fetchTodos_collection)
next
  case (POST r)
  then show "unique_ids ds \<Longrightarrow> ?thesis" by (simp add: todoHandlers_def createTodo_collection)
next
  case (PUT r)
  assume "unique_ids ds"
  with updateTodo_collection [of e r ds] PUT show ?thesis
    by (simp add: todoHandlers_def unique_ids_def)
next
  case (DELETE r)
  assume "unique_ids ds"
  with deleteTodo_collection [of e r ds] DELETE show ?thesis
    by (auto simp: todoHandlers_def dest: remove_first_unique)
qed

lemma unique_ids_run: "unique_ids ds \<Longrightarrow> unique_ids (run cs ds)"
proof (induction cs arbitrary: ds)
  case Nil
  then show ?case by simp
next
  case (Cons a cs)
  obtain e c where a: "a = (e, c)" by (cases a)
  from Cons.prems have "unique_ids (snd (todoHandlers e c ds))" by (rule unique_ids_todoHandlers)
  then have "unique_ids (run cs (snd (todoHandlers e c ds)))" by (rule Cons.IH)
  with a show ?case by simp
qed

lemma unique_ids_reachable: "unique_ids (run cs [])"
  by (rule unique_ids_run) (simp add: unique_ids_def)

lemma no_match_todoHandlers:
  assumes "\<forall>d\<in>set ds. \<not> matches_id oid d"
  shows "\<forall>d\<in>set (snd (todoHandlers e c ds)). \<not> matches_id oid d"
proof (cases c)
  case GET
  with assms show ?thesis by (simp add: todoHandlers_def fetchTodos_collection)
next
  case (POST r)
  with assms show ?thesis by (simp add: todoHandlers_def createTodo_collection)
next
  case (PUT r)
  from assms have "Some (BObjectId oid) \<notin> set (map (\<lambda>d. map_of d ''_id'') ds)"
    using no_match_ids [of ds oid] by blast
  then have "Some (BObjectId oid) \<notin> set (map (\<lambda>d. map_of d ''_id'') (snd (updateTodo e r ds)))"
    by (simp add: updateTodo_collection)
  then have "\<forall>d\<in>set (snd (updateTodo e r ds)). \<not> matches_id oid d"
    using no_match_ids [of "snd (updateTodo e r ds)" oid] by blast
  with PUT show ?thesis by (simp add: todoHandlers_def)
next
  case (DELETE r)
  with deleteTodo_collection [of e r ds] assms show ?thesis
    by (auto simp: todoHandlers_def dest: remove_first_subset)
qed

lemma no_match_run:
  "\<forall>d\<in>set ds. \<not> matches_id oid d \<Longrightarrow> \<forall>d\<in>set (run cs ds). \<not> matches_id oid d"
proof (induction cs arbitrary: ds)
  case Nil
  then show ?case by simp
next
  case (Cons a cs)
  obtain e c where a: "a = (e, c)" by (cases a)
  from Cons.prems have "\<forall>d\<in>set (snd (todoHandlers e c ds)). \<not> matches_id oid d"
    by (rule no_match_todoHandlers)
  then have "\<forall>d\<in>set (run cs (snd (todoHandlers e c ds))). \<not> matches_id oid d"
    by (rule Cons.IH)
  with a show ?case by simp
qed

subsection \<open>What a list response shows\<close>

text \<open>
  A list is answered with records only when the collection is empty, and then with
  none: no list response of this program shows a record.
\<close>

lemma listed_fetchTodos: "listed (fst (fetchTodos e ds)) = []"
  by (simp add: fetchTodos_reply listed_def split: option.splits)

lemma remove_first_keeps: "remove_first P ds = Some ds' \<Longrightarrow> d \<in> set ds \<Longrightarrow> \<not> P d \<Longrightarrow> d \<in> set ds'"
  by (induction ds arbitrary: ds') (auto split: if_splits option.splits)

subsection \<open>Updating a stored record\<close>

text \<open>
  What a successful update leaves of the document it matched: the update document under
  the old \<open>_id\<close>, and nothing else.
\<close>

lemma updateTodo_replaces_document:
  assumes "IsObjectIdHex (TrimSpace (url_id r))"
    and "ObjectIdHex (TrimSpace (url_id r)) = Some oid"
    and "body r = Inr t" and "Title t \<noteq> []" and "fault e = None"
    and "unique_ids ds" and "d \<in> set ds" and "matches_id oid d"
  shows "\<exists>ds'. updateTodo e r ds = (Silent, ds')
     \<and> (\<exists>d'\<in>set ds'. matches_id oid d')
     \<and> (\<forall>d'\<in>set ds'. matches_id oid d' \<longrightarrow>
           d' = [(''_id'', BObjectId oid), (''title'', BString (Title t)),
                 (''completed'', BBool (Completed t))])"
proof -
  let ?upd = "[(''title'', BString (Title t)), (''completed'', BBool (Completed t))]"
  have f: "replacement ?upd x = (''_id'', BObjectId oid) # ?upd" if "matches_id oid x" for x
    using that by (simp add: replacement_def matches_id_def)
  from assms(7,8)
    update_first_Some [where f = "replacement ?upd" and P = "matches_id oid" and d = d and ds = ds]
  obtain ds' x where u: "update_first (matches_id oid) (replacement ?upd) ds = Some ds'"
    and x: "x \<in> set ds" "matches_id oid x" "replacement ?upd x \<in> set ds'"
    by blast
  from u assms(1-5) have res: "updateTodo e r ds = (Silent, ds')"
    by (simp add: updateTodo_def Update_def)
  from x f have "(''_id'', BObjectId oid) # ?upd \<in> set ds'" by simp
  moreover have "matches_id oid ((''_id'', BObjectId oid) # ?upd)" by (simp add: matches_id_def)
  ultimately have ex: "\<exists>d'\<in>set ds'. matches_id oid d'" by blast
  have "d' = (''_id'', BObjectId oid) # ?upd" if "d' \<in> set ds'" and "matches_id oid d'" for d'
    using update_first_replaced [OF assms(6) u that] f by auto
  with res ex show ?thesis by auto
qed

text \<open>
  C1 fails on the code. The update document that updateTodo passes to Update has the
  keys title and completed and no operator, so the stored document is replaced by it:
  the _id stays, and created_at, which the document had, is gone from the collection.
\<close>

theorem updateTodo_drops_created_at:
  "updateTodo \<lparr>fault = None, new_oid = [], now = 0\<rparr>
      \<lparr>url_id = ''6162636465666768696a6b6c'',
       body = Inr \<lparr>ID = [], Title = ''b'', Completed = True, CreatedAt = 0\<rparr>\<rparr>
      [[(''_id'', BObjectId ''abcdefghijkl''), (''title'', BString ''a''),
        (''completed'', BBool False), (''created_at'', BTime 7)]]
    = (Silent,
       [[(''_id'', BObjectId ''abcdefghijkl''), (''title'', BString ''b''),
         (''completed'', BBool True)]])
   \<and> map_of [(''_id'', BObjectId ''abcdefghijkl''), (''title'', BString ''a''),
              (''completed'', BBool False), (''created_at'', BTime 7)] ''created_at''
      = Some (BTime 7)
   \<and> map_of [(''_id'', BObjectId ''abcdefghijkl''), (''title'', BString ''b''),
              (''completed'', BBool True)] ''created_at''
      = None"
  by (simp add: updateTodo_def Update_def sample_id matches_id_def replacement_def)

text \<open>
  C2, as the code has it. When an update request has a valid id, a body that decodes and
  a title that is not empty, and no stored document has the id, updateTodo makes no
  check of its own, but Update fails (with ErrNotFound when the connection works), and
  updateTodo answers 102 with the message "Failed to update todo!" and that error; the
  collection is unchanged.
\<close>

theorem updateTodo_missing_id_fails:
  assumes "IsObjectIdHex (TrimSpace (url_id r))"
    and "ObjectIdHex (TrimSpace (url_id r)) = Some oid"
    and "body r = Inr t"
    and "Title t \<noteq> []"
    and "\<forall>d\<in>set ds. \<not> matches_id oid d"
  shows "updateTodo e r ds =
           (JSON StatusProcessing
              (M [(''message'', JString ''Failed to update todo!''),
                  (''error'', JError (case fault e of None \<Rightarrow> ErrNotFound | Some err \<Rightarrow> err))]),
            ds)"
  using assms update_first_None [OF assms(5)]
  by (simp add: updateTodo_def Update_def split: option.splits)

theorem updateTodo_missing_id_fails_witness:
  "updateTodo \<lparr>fault = None, new_oid = [], now = 0\<rparr>
      \<lparr>url_id = ''6162636465666768696a6b6c'',
       body = Inr \<lparr>ID = [], Title = ''b'', Completed = True, CreatedAt = 0\<rparr>\<rparr>
      [[(''_id'', BObjectId ''mnopqrstuvwx''), (''title'', BString ''a'')]]
    = (JSON StatusProcessing
         (M [(''message'', JString ''Failed to update todo!''), (''error'', JError ErrNotFound)]),
       [[(''_id'', BObjectId ''mnopqrstuvwx''), (''title'', BString ''a'')]])"
  using updateTodo_missing_id_fails
    [where r = "\<lparr>url_id = ''6162636465666768696a6b6c'',
                  body = Inr \<lparr>ID = [], Title = ''b'', Completed = True, CreatedAt = 0\<rparr>\<rparr>"
       and oid = "''abcdefghijkl''"
       and t = "\<lparr>ID = [], Title = ''b'', Completed = True, CreatedAt = 0\<rparr>"
       and e = "\<lparr>fault = None, new_oid = [], now = 0\<rparr>"
       and ds = "[[(''_id'', BObjectId ''mnopqrstuvwx''), (''title'', BString ''a'')]]"]
  by (simp add: sample_id matches_id_def)

text \<open>
  C2, as the specification has it, fails: on an empty collection an update with a valid
  id, a decoded body and the title "b" is answered with the 102 failure response, while
  the same request on a collection that holds the id is answered with nothing.
\<close>

theorem updateTodo_missing_id_counterexample:
  "updateTodo \<lparr>fault = None, new_oid = [], now = 0\<rparr>
      \<lparr>url_id = ''6162636465666768696a6b6c'',
       body = Inr \<lparr>ID = [], Title = ''b'', Completed = True, CreatedAt = 0\<rparr>\<rparr> []
    = (JSON StatusProcessing
         (M [(''message'', JString ''Failed to update todo!''), (''error'', JError ErrNotFound)]), [])
   \<and> fst (updateTodo \<lparr>fault = None, new_oid = [], now = 0\<rparr>
      \<lparr>url_id = ''6162636465666768696a6b6c'',
       body = Inr \<lparr>ID = [], Title = ''b'', Completed = True, CreatedAt = 0\<rparr>\<rparr>
      [[(''_id'', BObjectId ''abcdefghijkl''), (''title'', BString ''a''),
        (''completed'', BBool False), (''created_at'', BTime 7)]])
    = Silent"
  by (simp add: updateTodo_def Update_def sample_id matches_id_def replacement_def)

text \<open>
  C3. When an update request passes the id validation, the body decoding and the title
  validation, and the storage update succeeds, updateTodo writes nothing: no status
  code and no body.
\<close>

theorem updateTodo_success_unterminated:
  assumes "IsObjectIdHex (TrimSpace (url_id r))"
    and "ObjectIdHex (TrimSpace (url_id r)) = Some oid"
    and "body r = Inr t"
    and "Title t \<noteq> []"
    and "Update (fault e) oid
           [(''title'', BString (Title t)), (''completed'', BBool (Completed t))] ds = Inr ds'"
  shows "updateTodo e r ds = (Silent, ds')"
  using assms by (simp add: updateTodo_def)

theorem updateTodo_success_unterminated_witness:
  "IsObjectIdHex (TrimSpace ''6162636465666768696a6b6c'')
   \<and> Update None ''abcdefghijkl'' [(''title'', BString ''b''), (''completed'', BBool True)]
        [[(''_id'', BObjectId ''abcdefghijkl''), (''title'', BString ''a''),
          (''completed'', BBool False), (''created_at'', BTime 7)]]
      = Inr [[(''_id'', BObjectId ''abcdefghijkl''), (''title'', BString ''b''),
              (''completed'', BBool True)]]
   \<and> updateTodo \<lparr>fault = None, new_oid = [], now = 0\<rparr>
        \<lparr>url_id = ''6162636465666768696a6b6c'',
         body = Inr \<lparr>ID = [], Title = ''b'', Completed = True, CreatedAt = 0\<rparr>\<rparr>
        [[(''_id'', BObjectId ''abcdefghijkl''), (''title'', BString ''a''),
          (''completed'', BBool False), (''created_at'', BTime 7)]]
      = (Silent, [[(''_id'', BObjectId ''abcdefghijkl''), (''title'', BString ''b''),
                   (''completed'', BBool True)]])"
proof -
  have u: "Update None ''abcdefghijkl'' [(''title'', BString ''b''), (''completed'', BBool True)]
        [[(''_id'', BObjectId ''abcdefghijkl''), (''title'', BString ''a''),
          (''completed'', BBool False), (''created_at'', BTime 7)]]
      = Inr [[(''_id'', BObjectId ''abcdefghijkl''), (''title'', BString ''b''),
              (''completed'', BBool True)]]"
    by (simp add: Update_def matches_id_def replacement_def)
  show ?thesis
    using updateTodo_success_unterminated
      [of "\<lparr>url_id = ''6162636465666768696a6b6c'',
            body = Inr \<lparr>ID = [], Title = ''b'', Completed = True, CreatedAt = 0\<rparr>\<rparr>"
          "''abcdefghijkl''" "\<lparr>ID = [], Title = ''b'', Completed = True, CreatedAt = 0\<rparr>"
          "\<lparr>fault = None, new_oid = [], now = 0\<rparr>"
          "[[(''_id'', BObjectId ''abcdefghijkl''), (''title'', BString ''a''),
          (''completed'', BBool False), (''created_at'', BTime 7)]]"
          "[[(''_id'', BObjectId ''abcdefghijkl''), (''title'', BString ''b''),
              (''completed'', BBool True)]]"]
      u sample_id
    by simp
qed

subsection \<open>Statuses of the failures\<close>

text \<open>
  C4. In each of the four handlers, a failure of the body decoding and an error of the
  storage call are answered with status 102, a malformed id and an empty title with
  status 400, the status being the one given to rnd.JSON. No handler writes another
  status for a failure: list writes 102 or 200, create 102 or 400, delete 102, 400 or
  200, update 102, 400 or nothing. The calls that write no status because they panic in
  the driver are exactly the lists of a collection that is not empty and the creates
  with a decoded body and a title that is not empty, each on a working connection.
\<close>

theorem failure_statuses:
  "(Find_All (fault e) ds = Err err \<longrightarrow>
      status_of (fst (fetchTodos e ds)) = Some StatusProcessing)
   \<and> (body r = Inl derr \<longrightarrow> status_of (fst (createTodo e r ds)) = Some StatusProcessing)
   \<and> (body r = Inr t \<and> Title t = [] \<longrightarrow>
        status_of (fst (createTodo e r ds)) = Some StatusBadRequest)
   \<and> (body r = Inr t \<and> Title t \<noteq> [] \<and>
        Insert (fault e)
          \<lparr>tm_ID = new_oid e, tm_Title = Title t, tm_Completed = Completed t,
           tm_CreatedAt = now e\<rparr> ds = Err err \<longrightarrow>
        status_of (fst (createTodo e r ds)) = Some StatusProcessing)
   \<and> (\<not> IsObjectIdHex (TrimSpace (url_id r)) \<longrightarrow>
        status_of (fst (deleteTodo e r ds)) = Some StatusBadRequest)
   \<and> (IsObjectIdHex (TrimSpace (url_id r)) \<and> ObjectIdHex (TrimSpace (url_id r)) = Some oid \<and>
        RemoveId (fault e) oid ds = Inl err \<longrightarrow>
        status_of (fst (deleteTodo e r ds)) = Some StatusProcessing)
   \<and> (\<not> IsObjectIdHex (TrimSpace (url_id r)) \<longrightarrow>
        status_of (fst (updateTodo e r ds)) = Some StatusBadRequest)
   \<and> (IsObjectIdHex (TrimSpace (url_id r)) \<and> body r = Inl derr \<longrightarrow>
        status_of (fst (updateTodo e r ds)) = Some StatusProcessing)
   \<and> (IsObjectIdHex (TrimSpace (url_id r)) \<and> body r = Inr t \<and> Title t = [] \<longrightarrow>
        status_of (fst (updateTodo e r ds)) = Some StatusBadRequest)
   \<and> (IsObjectIdHex (TrimSpace (url_id r)) \<and> ObjectIdHex (TrimSpace (url_id r)) = Some oid \<and>
        body r = Inr t \<and> Title t \<noteq> [] \<and>
        Update (fault e) oid
          [(''title'', BString (Title t)), (''completed'', BBool (Completed t))] ds = Inl err \<longrightarrow>
        status_of (fst (updateTodo e r ds)) = Some StatusProcessing)
   \<and> (if fault e = None \<and> ds \<noteq> []
       then fst (fetchTodos e ds) = Panic (Unsupported_flag '' omitempty'' ''_id, omitempty'')
       else status_of (fst (fetchTodos e ds)) \<in> {Some StatusProcessing, Some StatusOK})
   \<and> (if fault e = None \<and> (case body r of Inl x \<Rightarrow> False | Inr y \<Rightarrow> Title y \<noteq> [])
       then fst (createTodo e r ds) = Panic (Unsupported_flag '' omitempty'' ''_id, omitempty'')
       else status_of (fst (createTodo e r ds)) \<in> {Some StatusProcessing, Some StatusBadRequest})
   \<and> status_of (fst (deleteTodo e r ds))
        \<in> {Some StatusProcessing, Some StatusBadRequest, Some StatusOK}
   \<and> (fst (updateTodo e r ds) = Silent
        \<or> status_of (fst (updateTodo e r ds)) \<in> {Some StatusProcessing, Some StatusBadRequest})"
proof -
  have f: "if fault e = None \<and> ds \<noteq> []
       then fst (fetchTodos e ds) = Panic (Unsupported_flag '' omitempty'' ''_id, omitempty'')
       else status_of (fst (fetchTodos e ds)) \<in> {Some StatusProcessing, Some StatusOK}"
    by (simp add: fetchTodos_reply status_of_def split: option.splits)
  have c: "if fault e = None \<and> (case body r of Inl x \<Rightarrow> False | Inr y \<Rightarrow> Title y \<noteq> [])
       then fst (createTodo e r ds) = Panic (Unsupported_flag '' omitempty'' ''_id, omitempty'')
       else status_of (fst (createTodo e r ds)) \<in> {Some StatusProcessing, Some StatusBadRequest}"
    by (simp add: createTodo_reply status_of_def split: sum.splits option.splits)
  have d: "status_of (fst (deleteTodo e r ds))
        \<in> {Some StatusProcessing, Some StatusBadRequest, Some StatusOK}"
    by (simp add: deleteTodo_status split: sum.splits)
  have u: "fst (updateTodo e r ds) = Silent
        \<or> status_of (fst (updateTodo e r ds)) \<in> {Some StatusProcessing, Some StatusBadRequest}"
    by (simp add: updateTodo_reply status_of_def split: sum.splits)
  have f1: "Find_All (fault e) ds = Err err \<longrightarrow>
      status_of (fst (fetchTodos e ds)) = Some StatusProcessing"
    by (simp add: fetchTodos_def status_of_def)
  have c1: "body r = Inl derr \<longrightarrow> status_of (fst (createTodo e r ds)) = Some StatusProcessing"
    by (simp add: createTodo_def status_of_def)
  have c2: "body r = Inr t \<and> Title t = [] \<longrightarrow>
        status_of (fst (createTodo e r ds)) = Some StatusBadRequest"
    by (simp add: createTodo_def status_of_def)
  have c3: "body r = Inr t \<and> Title t \<noteq> [] \<and>
        Insert (fault e)
          \<lparr>tm_ID = new_oid e, tm_Title = Title t, tm_Completed = Completed t,
           tm_CreatedAt = now e\<rparr> ds = Err err \<longrightarrow>
        status_of (fst (createTodo e r ds)) = Some StatusProcessing"
    by (simp add: createTodo_def status_of_def Let_def)
  have d1: "\<not> IsObjectIdHex (TrimSpace (url_id r)) \<longrightarrow>
        status_of (fst (deleteTodo e r ds)) = Some StatusBadRequest"
    by (simp add: deleteTodo_status)
  have d2: "IsObjectIdHex (TrimSpace (url_id r)) \<and> ObjectIdHex (TrimSpace (url_id r)) = Some oid \<and>
        RemoveId (fault e) oid ds = Inl err \<longrightarrow>
        status_of (fst (deleteTodo e r ds)) = Some StatusProcessing"
    by (simp add: deleteTodo_status)
  have u1: "\<not> IsObjectIdHex (TrimSpace (url_id r)) \<longrightarrow>
        status_of (fst (updateTodo e r ds)) = Some StatusBadRequest"
    by (simp add: updateTodo_reply status_of_def)
  have u2: "IsObjectIdHex (TrimSpace (url_id r)) \<and> body r = Inl derr \<longrightarrow>
        status_of (fst (updateTodo e r ds)) = Some StatusProcessing"
    by (simp add: updateTodo_reply status_of_def)
  have u3: "IsObjectIdHex (TrimSpace (url_id r)) \<and> body r = Inr t \<and> Title t = [] \<longrightarrow>
        status_of (fst (updateTodo e r ds)) = Some StatusBadRequest"
    by (simp add: updateTodo_reply status_of_def)
  have u4: "IsObjectIdHex (TrimSpace (url_id r)) \<and> ObjectIdHex (TrimSpace (url_id r)) = Some oid \<and>
        body r = Inr t \<and> Title t \<noteq> [] \<and>
        Update (fault e) oid
          [(''title'', BString (Title t)), (''completed'', BBool (Completed t))] ds = Inl err \<longrightarrow>
        status_of (fst (updateTodo e r ds)) = Some StatusProcessing"
    by (simp add: updateTodo_reply status_of_def)
  from f1 c1 c2 c3 d1 d2 u1 u2 u3 u4 f c d u show ?thesis by blast
qed

theorem failure_statuses_witness:
  "status_of (fst (fetchTodos \<lparr>fault = Some (ErrConnection ''EOF''), new_oid = ''abcdefghijkl'', now = 7\<rparr> []))
     = Some StatusProcessing
   \<and> status_of (fst (createTodo \<lparr>fault = Some (ErrConnection ''EOF''), new_oid = ''abcdefghijkl'', now = 7\<rparr>
        \<lparr>url_id = ''6162636465666768696a6b6c'', body = Inl ''unexpected EOF''\<rparr> []))
     = Some StatusProcessing
   \<and> status_of (fst (createTodo \<lparr>fault = None, new_oid = ''abcdefghijkl'', now = 7\<rparr>
        \<lparr>url_id = ''not-an-id'', body = Inr \<lparr>ID = [], Title = [], Completed = True, CreatedAt = 0\<rparr>\<rparr> []))
     = Some StatusBadRequest
   \<and> status_of (fst (createTodo \<lparr>fault = Some (ErrConnection ''EOF''), new_oid = ''abcdefghijkl'', now = 7\<rparr>
        \<lparr>url_id = ''6162636465666768696a6b6c'',
         body = Inr \<lparr>ID = [], Title = ''b'', Completed = True, CreatedAt = 0\<rparr>\<rparr> []))
     = Some StatusProcessing
   \<and> status_of (fst (deleteTodo \<lparr>fault = None, new_oid = ''abcdefghijkl'', now = 7\<rparr>
        \<lparr>url_id = ''not-an-id'', body = Inr \<lparr>ID = [], Title = [], Completed = True, CreatedAt = 0\<rparr>\<rparr> []))
     = Some StatusBadRequest
   \<and> status_of (fst (deleteTodo \<lparr>fault = Some (ErrConnection ''EOF''), new_oid = ''abcdefghijkl'', now = 7\<rparr>
        \<lparr>url_id = ''6162636465666768696a6b6c'', body = Inl ''unexpected EOF''\<rparr> []))
     = Some StatusProcessing
   \<and> status_of (fst (updateTodo \<lparr>fault = None, new_oid = ''abcdefghijkl'', now = 7\<rparr>
        \<lparr>url_id = ''not-an-id'', body = Inr \<lparr>ID = [], Title = [], Completed = True, CreatedAt = 0\<rparr>\<rparr> []))
     = Some StatusBadRequest
   \<and> status_of (fst (updateTodo \<lparr>fault = Some (ErrConnection ''EOF''), new_oid = ''abcdefghijkl'', now = 7\<rparr>
        \<lparr>url_id = ''6162636465666768696a6b6c'', body = Inl ''unexpected EOF''\<rparr> []))
     = Some StatusProcessing
   \<and> status_of (fst (updateTodo \<lparr>fault = None, new_oid = ''abcdefghijkl'', now = 7\<rparr>
        \<lparr>url_id = ''6162636465666768696a6b6c'',
         body = Inr \<lparr>ID = [], Title = [], Completed = True, CreatedAt = 0\<rparr>\<rparr> []))
     = Some StatusBadRequest
   \<and> status_of (fst (updateTodo \<lparr>fault = Some (ErrConnection ''EOF''), new_oid = ''abcdefghijkl'', now = 7\<rparr>
        \<lparr>url_id = ''6162636465666768696a6b6c'',
         body = Inr \<lparr>ID = [], Title = ''b'', Completed = True, CreatedAt = 0\<rparr>\<rparr> []))
     = Some StatusProcessing
   \<and> fst (createTodo \<lparr>fault = None, new_oid = ''abcdefghijkl'', now = 7\<rparr>
        \<lparr>url_id = ''6162636465666768696a6b6c'',
         body = Inr \<lparr>ID = [], Title = ''b'', Completed = True, CreatedAt = 0\<rparr>\<rparr> [])
     = Panic (Unsupported_flag '' omitempty'' ''_id, omitempty'')
   \<and> fst (fetchTodos \<lparr>fault = None, new_oid = ''abcdefghijkl'', now = 7\<rparr>
        [[(''_id'', BObjectId ''abcdefghijkl''), (''title'', BString ''a'')]])
     = Panic (Unsupported_flag '' omitempty'' ''_id, omitempty'')"
proof -
  let ?eF = "\<lparr>fault = Some (ErrConnection ''EOF''), new_oid = ''abcdefghijkl'', now = 7\<rparr>"
  let ?e0 = "\<lparr>fault = None, new_oid = ''abcdefghijkl'', now = 7\<rparr>"
  let ?t0 = "\<lparr>ID = [], Title = [], Completed = True, CreatedAt = 0\<rparr>"
  let ?tb = "\<lparr>ID = [], Title = ''b'', Completed = True, CreatedAt = 0\<rparr>"
  let ?rl = "\<lparr>url_id = ''6162636465666768696a6b6c'', body = Inl ''unexpected EOF''\<rparr>"
  let ?rn = "\<lparr>url_id = ''not-an-id'', body = Inr ?t0\<rparr>"
  let ?rb = "\<lparr>url_id = ''6162636465666768696a6b6c'', body = Inr ?tb\<rparr>"
  let ?r0 = "\<lparr>url_id = ''6162636465666768696a6b6c'', body = Inr ?t0\<rparr>"
  let ?d1 = "[(''_id'', BObjectId ''abcdefghijkl''), (''title'', BString ''a'')]"
  have n: "\<not> IsObjectIdHex ''not-an-id''" by (simp add: IsObjectIdHex_def)
  note a = failure_statuses [of ?eF "[]" "ErrConnection ''EOF''" ?rl "''unexpected EOF''" ?t0
      "''abcdefghijkl''"]
  note b = failure_statuses [of ?e0 "[]" "ErrConnection ''EOF''" ?rn "''unexpected EOF''" ?t0
      "''abcdefghijkl''"]
  note c = failure_statuses [of ?eF "[]" "ErrConnection ''EOF''" ?rb "''unexpected EOF''" ?tb
      "''abcdefghijkl''"]
  note d = failure_statuses [of ?e0 "[]" "ErrConnection ''EOF''" ?r0 "''unexpected EOF''" ?t0
      "''abcdefghijkl''"]
  note p = failure_statuses [of ?e0 "[?d1]" "ErrConnection ''EOF''" ?rb "''unexpected EOF''" ?tb
      "''abcdefghijkl''"]
  note q = failure_statuses [of ?e0 "[]" "ErrConnection ''EOF''" ?rb "''unexpected EOF''" ?tb
      "''abcdefghijkl''"]
  have 1: "status_of (fst (fetchTodos ?eF [])) = Some StatusProcessing"
    using a by (simp add: Find_All_def)
  have 2: "status_of (fst (createTodo ?eF ?rl [])) = Some StatusProcessing"
    using a by simp
  have 3: "status_of (fst (createTodo ?e0 ?rn [])) = Some StatusBadRequest"
    using b by simp
  have 4: "status_of (fst (createTodo ?eF ?rb [])) = Some StatusProcessing"
    using c by (simp add: Insert_def)
  have 5: "status_of (fst (deleteTodo ?e0 ?rn [])) = Some StatusBadRequest"
    using b n by (simp add: sample_malformed)
  have 6: "status_of (fst (deleteTodo ?eF ?rl [])) = Some StatusProcessing"
    using a by (simp add: sample_id RemoveId_def)
  have 7: "status_of (fst (updateTodo ?e0 ?rn [])) = Some StatusBadRequest"
    using b n by (simp add: sample_malformed)
  have 8: "status_of (fst (updateTodo ?eF ?rl [])) = Some StatusProcessing"
    using a by (simp add: sample_id)
  have 9: "status_of (fst (updateTodo ?e0 ?r0 [])) = Some StatusBadRequest"
    using d by (simp add: sample_id)
  have 10: "status_of (fst (updateTodo ?eF ?rb [])) = Some StatusProcessing"
    using c by (simp add: sample_id Update_def)
  have 11: "fst (createTodo ?e0 ?rb []) = Panic (Unsupported_flag '' omitempty'' ''_id, omitempty'')"
    using q by simp
  have 12: "fst (fetchTodos ?e0 [?d1]) = Panic (Unsupported_flag '' omitempty'' ''_id, omitempty'')"
    using p by simp
  from 1 2 3 4 5 6 7 8 9 10 11 12 show ?thesis by blast
qed

subsection \<open>The title of a create request\<close>

text \<open>
  C5. When the body of a create request decodes, createTodo answers 400 exactly when the
  decoded title is the empty string, whatever the completed flag is. The title is
  compared as it was decoded: with a title that is not empty, also one of white space
  only, createTodo goes on to Insert with that title, and its outcome is that of the
  Insert call: 102 with "Failed to save todo." when it returns an error, the panic of
  the driver on a working connection.
\<close>

theorem createTodo_empty_title:
  assumes "body r = Inr t"
  shows "(status_of (fst (createTodo e r ds)) = Some StatusBadRequest \<longleftrightarrow> Title t = [])
    \<and> (Title t \<noteq> [] \<longrightarrow>
         Insert (fault e)
           \<lparr>tm_ID = new_oid e, tm_Title = Title t, tm_Completed = Completed t,
            tm_CreatedAt = now e\<rparr> ds
           = (case fault e of
                Some err \<Rightarrow> Err err
              | None \<Rightarrow> Panics (Unsupported_flag '' omitempty'' ''_id, omitempty''))
       \<and> createTodo e r ds =
           (case fault e of
              Some err \<Rightarrow>
                (JSON StatusProcessing (M [(''message'', JString ''Failed to save todo.'')]), ds)
            | None \<Rightarrow> (Panic (Unsupported_flag '' omitempty'' ''_id, omitempty''), ds)))"
proof -
  have "status_of (fst (createTodo e r ds)) = Some StatusBadRequest \<longleftrightarrow> Title t = []"
    using assms by (simp add: createTodo_reply status_of_def split: option.splits)
  moreover have "Title t \<noteq> [] \<longrightarrow>
       createTodo e r ds =
           (case fault e of
              Some err \<Rightarrow>
                (JSON StatusProcessing (M [(''message'', JString ''Failed to save todo.'')]), ds)
            | None \<Rightarrow> (Panic (Unsupported_flag '' omitempty'' ''_id, omitempty''), ds))"
    using assms by (simp add: createTodo_reply)
  moreover have "Insert (fault e)
           \<lparr>tm_ID = new_oid e, tm_Title = Title t, tm_Completed = Completed t,
            tm_CreatedAt = now e\<rparr> ds
           = (case fault e of
                Some err \<Rightarrow> Err err
              | None \<Rightarrow> Panics (Unsupported_flag '' omitempty'' ''_id, omitempty''))"
    by (rule Insert_result)
  ultimately show ?thesis by blast
qed

theorem createTodo_empty_title_witness:
  "TrimSpace ''  '' = []
   \<and> createTodo \<lparr>fault = None, new_oid = ''abcdefghijkl'', now = 7\<rparr>
        \<lparr>url_id = [], body = Inr \<lparr>ID = [], Title = ''  '', Completed = False, CreatedAt = 0\<rparr>\<rparr> []
      = (Panic (Unsupported_flag '' omitempty'' ''_id, omitempty''), [])
   \<and> createTodo \<lparr>fault = Some (ErrConnection ''EOF''), new_oid = ''abcdefghijkl'', now = 7\<rparr>
        \<lparr>url_id = [], body = Inr \<lparr>ID = [], Title = ''  '', Completed = False, CreatedAt = 0\<rparr>\<rparr> []
      = (JSON StatusProcessing (M [(''message'', JString ''Failed to save todo.'')]), [])
   \<and> status_of (fst (createTodo \<lparr>fault = None, new_oid = ''abcdefghijkl'', now = 7\<rparr>
        \<lparr>url_id = [], body = Inr \<lparr>ID = [], Title = [], Completed = False, CreatedAt = 0\<rparr>\<rparr> []))
      = Some StatusBadRequest"
  using createTodo_empty_title
    [of "\<lparr>url_id = [], body = Inr \<lparr>ID = [], Title = ''  '', Completed = False, CreatedAt = 0\<rparr>\<rparr>"
        "\<lparr>ID = [], Title = ''  '', Completed = False, CreatedAt = 0\<rparr>"
        "\<lparr>fault = None, new_oid = ''abcdefghijkl'', now = 7\<rparr>" "[]"]
    createTodo_empty_title
    [of "\<lparr>url_id = [], body = Inr \<lparr>ID = [], Title = ''  '', Completed = False, CreatedAt = 0\<rparr>\<rparr>"
        "\<lparr>ID = [], Title = ''  '', Completed = False, CreatedAt = 0\<rparr>"
        "\<lparr>fault = Some (ErrConnection ''EOF''), new_oid = ''abcdefghijkl'', now = 7\<rparr>" "[]"]
    createTodo_empty_title
    [of "\<lparr>url_id = [], body = Inr \<lparr>ID = [], Title = [], Completed = False, CreatedAt = 0\<rparr>\<rparr>"
        "\<lparr>ID = [], Title = [], Completed = False, CreatedAt = 0\<rparr>"
        "\<lparr>fault = None, new_oid = ''abcdefghijkl'', now = 7\<rparr>" "[]"]
  by (simp add: sample_blank)

subsection \<open>Deleting\<close>

text \<open>
  C6. When the path id, trimmed, is no valid object id in hex, deleteTodo answers 400
  whatever the state of the database is, and the collection is unchanged. When the id is
  valid and no stored document has it, RemoveId fails (with ErrNotFound when the
  connection works) and deleteTodo answers 102 with the id it was given, trimmed; the
  collection is unchanged.
\<close>

theorem deleteTodo_invalid_or_missing:
  "(\<not> IsObjectIdHex (TrimSpace (url_id r)) \<longrightarrow>
      deleteTodo e r ds = (JSON StatusBadRequest (M [(''message'', JString ''Id is invalid!'')]), ds))
   \<and> (IsObjectIdHex (TrimSpace (url_id r)) \<and> ObjectIdHex (TrimSpace (url_id r)) = Some oid \<and>
        (\<forall>d\<in>set ds. \<not> matches_id oid d) \<longrightarrow>
        RemoveId (fault e) oid ds = Inl (case fault e of None \<Rightarrow> ErrNotFound | Some err \<Rightarrow> err)
        \<and> deleteTodo e r ds =
            (JSON StatusProcessing
               (M [(''message'', JString ''Failed to delete todo!''),
                   (''todo_id'', JString (TrimSpace (url_id r)))]), ds))"
proof -
  have "RemoveId (fault e) oid ds = Inl (case fault e of None \<Rightarrow> ErrNotFound | Some err \<Rightarrow> err)"
    if "\<forall>d\<in>set ds. \<not> matches_id oid d"
    using remove_first_None [OF that] by (simp add: RemoveId_def split: option.splits)
  then show ?thesis by (simp add: deleteTodo_def Let_def)
qed

theorem deleteTodo_invalid_or_missing_witness:
  "deleteTodo \<lparr>fault = Some (ErrConnection ''EOF''), new_oid = [], now = 0\<rparr>
      \<lparr>url_id = ''not-an-id'', body = Inl []\<rparr>
      [[(''_id'', BObjectId ''abcdefghijkl''), (''title'', BString ''a'')]]
    = (JSON StatusBadRequest (M [(''message'', JString ''Id is invalid!'')]),
       [[(''_id'', BObjectId ''abcdefghijkl''), (''title'', BString ''a'')]])
   \<and> RemoveId None ''abcdefghijkl'' [[(''_id'', BObjectId ''mnopqrstuvwx''), (''title'', BString ''a'')]]
      = Inl ErrNotFound
   \<and> deleteTodo \<lparr>fault = None, new_oid = [], now = 0\<rparr>
      \<lparr>url_id = ''6162636465666768696a6b6c'', body = Inl []\<rparr>
      [[(''_id'', BObjectId ''mnopqrstuvwx''), (''title'', BString ''a'')]]
    = (JSON StatusProcessing
         (M [(''message'', JString ''Failed to delete todo!''),
             (''todo_id'', JString ''6162636465666768696a6b6c'')]),
       [[(''_id'', BObjectId ''mnopqrstuvwx''), (''title'', BString ''a'')]])"
proof -
  have n: "\<not> IsObjectIdHex ''not-an-id''" by (simp add: IsObjectIdHex_def)
  show ?thesis
    using n
      deleteTodo_invalid_or_missing
        [where r = "\<lparr>url_id = ''not-an-id'', body = Inl []\<rparr>"
           and e = "\<lparr>fault = Some (ErrConnection ''EOF''), new_oid = [], now = 0\<rparr>"
           and ds = "[[(''_id'', BObjectId ''abcdefghijkl''), (''title'', BString ''a'')]]"
           and oid = "''abcdefghijkl''"]
      deleteTodo_invalid_or_missing
        [where r = "\<lparr>url_id = ''6162636465666768696a6b6c'', body = Inl []\<rparr>"
           and e = "\<lparr>fault = None, new_oid = [], now = 0\<rparr>"
           and ds = "[[(''_id'', BObjectId ''mnopqrstuvwx''), (''title'', BString ''a'')]]"
           and oid = "''abcdefghijkl''"]
    by (simp add: sample_id sample_malformed matches_id_def)
qed

text \<open>
  C7. When the collection holds a document with a 12-byte object id (unique, as the
  server keeps it) and the connection works, a delete request with the hex form of that
  id is answered with 200, the message and the same id. It removes that document and no
  other; whatever calls are served afterwards, the collection never holds a document
  with that id again, and no list response shows a record with it.
\<close>

theorem deleteTodo_existing:
  assumes "unique_ids ds" and "d \<in> set ds" and "matches_id oid d" and "length oid = 12"
    and "fault e = None" and "url_id r = Hex oid"
  shows "\<exists>ds'. deleteTodo e r ds =
                 (JSON StatusOK
                    (M [(''message'', JString ''Todo deleted succesfully!''),
                        (''todo_id'', JString (Hex oid))]), ds')
               \<and> (\<forall>d'\<in>set ds'. \<not> matches_id oid d')
               \<and> set ds' \<subseteq> set ds
               \<and> (\<forall>d'\<in>set ds. \<not> matches_id oid d' \<longrightarrow> d' \<in> set ds')
               \<and> (\<forall>d'\<in>set (run cs ds'). \<not> matches_id oid d')
               \<and> (\<forall>x\<in>set (listed (fst (fetchTodos e' (run cs ds')))). ID x \<noteq> Hex oid)"
proof -
  from assms(2,3) obtain ds' where rm: "remove_first (matches_id oid) ds = Some ds'"
    using remove_first_Some [of d ds "matches_id oid"] by blast
  have del: "deleteTodo e r ds =
      (JSON StatusOK
         (M [(''message'', JString ''Todo deleted succesfully!''),
             (''todo_id'', JString (Hex oid))]), ds')"
    using Hex_ObjectId [OF assms(4)] assms(5,6) rm by (simp add: deleteTodo_def RemoveId_def)
  from remove_first_unique [OF assms(1) rm] have gone: "\<forall>d'\<in>set ds'. \<not> matches_id oid d'"
    by blast
  then have later: "\<forall>d'\<in>set (run cs ds'). \<not> matches_id oid d'" by (rule no_match_run)
  have sub: "set ds' \<subseteq> set ds" using rm by (rule remove_first_subset)
  have keep: "\<forall>d'\<in>set ds. \<not> matches_id oid d' \<longrightarrow> d' \<in> set ds'"
    using remove_first_keeps [OF rm] by blast
  have shown: "\<forall>x\<in>set (listed (fst (fetchTodos e' (run cs ds')))). ID x \<noteq> Hex oid"
    by (simp add: listed_fetchTodos)
  from del gone sub keep later shown show ?thesis by blast
qed

theorem deleteTodo_existing_witness:
  "unique_ids [[(''_id'', BObjectId ''abcdefghijkl''), (''title'', BString ''a'')],
               [(''_id'', BObjectId ''mnopqrstuvwx''), (''title'', BString ''c'')]]
   \<and> matches_id ''abcdefghijkl'' [(''_id'', BObjectId ''abcdefghijkl''), (''title'', BString ''a'')]
   \<and> Hex ''abcdefghijkl'' = ''6162636465666768696a6b6c''
   \<and> deleteTodo \<lparr>fault = None, new_oid = [], now = 0\<rparr>
          \<lparr>url_id = ''6162636465666768696a6b6c'', body = Inl []\<rparr>
          [[(''_id'', BObjectId ''abcdefghijkl''), (''title'', BString ''a'')],
           [(''_id'', BObjectId ''mnopqrstuvwx''), (''title'', BString ''c'')]]
        = (JSON StatusOK
             (M [(''message'', JString ''Todo deleted succesfully!''),
                 (''todo_id'', JString ''6162636465666768696a6b6c'')]),
           [[(''_id'', BObjectId ''mnopqrstuvwx''), (''title'', BString ''c'')]])
   \<and> filter (matches_id ''abcdefghijkl'')
        (run [(\<lparr>fault = None, new_oid = ''abcdefghijkl'', now = 9\<rparr>,
               POST \<lparr>url_id = [], body = Inr \<lparr>ID = [], Title = ''e'', Completed = False, CreatedAt = 0\<rparr>\<rparr>)]
           [[(''_id'', BObjectId ''mnopqrstuvwx''), (''title'', BString ''c'')]])
      = []"
proof -
  let ?d1 = "[(''_id'', BObjectId ''abcdefghijkl''), (''title'', BString ''a'')]"
  let ?d2 = "[(''_id'', BObjectId ''mnopqrstuvwx''), (''title'', BString ''c'')]"
  let ?cs = "[(\<lparr>fault = None, new_oid = ''abcdefghijkl'', now = 9\<rparr>,
        POST \<lparr>url_id = [], body = Inr \<lparr>ID = [], Title = ''e'', Completed = False, CreatedAt = 0\<rparr>\<rparr>)]"
  let ?e = "\<lparr>fault = None, new_oid = [], now = 0\<rparr>"
  let ?r = "\<lparr>url_id = ''6162636465666768696a6b6c'', body = Inl []\<rparr>"
  have u: "unique_ids [?d1, ?d2]" by (simp add: unique_ids_def)
  have m: "matches_id ''abcdefghijkl'' ?d1" by (simp add: matches_id_def)
  have i: "?d1 \<in> set [?d1, ?d2]" by simp
  have l: "length ''abcdefghijkl'' = 12" by simp
  have f: "fault ?e = None" by simp
  have r: "url_id ?r = Hex ''abcdefghijkl''" by (simp add: sample_Hex)
  have del: "deleteTodo ?e ?r [?d1, ?d2]
      = (JSON StatusOK
           (M [(''message'', JString ''Todo deleted succesfully!''),
               (''todo_id'', JString ''6162636465666768696a6b6c'')]), [?d2])"
    by (simp add: deleteTodo_def RemoveId_def sample_id matches_id_def)
  from deleteTodo_existing [OF u i m l f r, where cs = ?cs and e' = ?e]
  obtain ds' where 1: "deleteTodo ?e ?r [?d1, ?d2] =
                 (JSON StatusOK
                    (M [(''message'', JString ''Todo deleted succesfully!''),
                        (''todo_id'', JString (Hex ''abcdefghijkl''))]), ds')"
    and 2: "\<forall>d'\<in>set (run ?cs ds'). \<not> matches_id ''abcdefghijkl'' d'"
    by blast
  from 1 del have "ds' = [?d2]" by simp
  with 2 have "\<forall>d'\<in>set (run ?cs [?d2]). \<not> matches_id ''abcdefghijkl'' d'" by simp
  then have "filter (matches_id ''abcdefghijkl'') (run ?cs [?d2]) = []"
    by (simp only: filter_empty_conv)
  with u m del show ?thesis by (simp add: sample_Hex)
qed

subsection \<open>Creating, and the list that follows\<close>

text \<open>
  C8 fails on the code. A create request with a decoded body and the title "buy milk",
  on a working connection, is not answered with 201: Insert panics in the driver on the
  tag of the field ID, nothing is written and nothing is stored. A list of a collection
  that holds a record panics in the same way, when the record is decoded.
\<close>

theorem createTodo_panics_in_Insert:
  "createTodo \<lparr>fault = None, new_oid = ''abcdefghijkl'', now = 7\<rparr>
      \<lparr>url_id = [], body = Inr \<lparr>ID = [], Title = ''buy milk'', Completed = False, CreatedAt = 0\<rparr>\<rparr> []
    = (Panic (Unsupported_flag '' omitempty'' ''_id, omitempty''), [])
   \<and> fetchTodos \<lparr>fault = None, new_oid = [], now = 8\<rparr>
        [[(''_id'', BObjectId ''abcdefghijkl''), (''title'', BString ''buy milk''),
          (''completed'', BBool False), (''created_at'', BTime 7)]]
    = (Panic (Unsupported_flag '' omitempty'' ''_id, omitempty''),
       [[(''_id'', BObjectId ''abcdefghijkl''), (''title'', BString ''buy milk''),
         (''completed'', BBool False), (''created_at'', BTime 7)]])
   \<and> Unsupported_flag '' omitempty'' ''_id, omitempty''
    = ''Unsupported flag '' @ [CHR 0x22] @ '' omitempty'' @ [CHR 0x22] @ '' in tag '' @ [CHR 0x22]
        @ ''_id, omitempty'' @ [CHR 0x22] @ '' of type main.todoModel''"
  by (simp add: createTodo_def Insert_def marshal_def fetchTodos_def Find_All_def unmarshal_def
      todoModel_tags_def read_tag_def Unsupported_flag_def quoted_def)

subsection \<open>White space around the path id\<close>

text \<open>
  C9. updateTodo and deleteTodo trim the path id before they validate it. With a valid
  id that has white space before and after it, the id is not answered as invalid:
  updateTodo goes on to the body and to Update, deleteTodo to RemoveId, each with the
  object id that the id alone denotes, and deleteTodo echoes the id alone; the outcome
  is the same as for the id without the white space.
\<close>

theorem path_id_is_trimmed:
  assumes "set ql \<subseteq> set space_seqs" and "set qr \<subseteq> set space_seqs"
    and "IsObjectIdHex s" and "ObjectIdHex s = Some oid"
  shows "updateTodo e (r\<lparr>url_id := concat ql @ s @ concat qr\<rparr>) ds =
           (case body r of
              Inl derr \<Rightarrow> (JSON StatusProcessing (DecodeError derr), ds)
            | Inr t \<Rightarrow>
                if Title t = [] then
                  (JSON StatusBadRequest (M [(''message'', JString ''The title is empty!'')]), ds)
                else
                  (case Update (fault e) oid
                          [(''title'', BString (Title t)), (''completed'', BBool (Completed t))] ds of
                     Inl err \<Rightarrow>
                       (JSON StatusProcessing
                          (M [(''message'', JString ''Failed to update todo!''),
                              (''error'', JError err)]), ds)
                   | Inr ds' \<Rightarrow> (Silent, ds')))
    \<and> deleteTodo e (r\<lparr>url_id := concat ql @ s @ concat qr\<rparr>) ds =
           (case RemoveId (fault e) oid ds of
              Inl err \<Rightarrow>
                (JSON StatusProcessing
                   (M [(''message'', JString ''Failed to delete todo!''),
                       (''todo_id'', JString s)]), ds)
            | Inr ds' \<Rightarrow>
                (JSON StatusOK
                   (M [(''message'', JString ''Todo deleted succesfully!''),
                       (''todo_id'', JString s)]), ds'))
    \<and> updateTodo e (r\<lparr>url_id := concat ql @ s @ concat qr\<rparr>) ds = updateTodo e (r\<lparr>url_id := s\<rparr>) ds
    \<and> deleteTodo e (r\<lparr>url_id := concat ql @ s @ concat qr\<rparr>) ds = deleteTodo e (r\<lparr>url_id := s\<rparr>) ds"
proof -
  have t: "TrimSpace (concat ql @ s @ concat qr) = s"
    using assms(1-3) by (rule TrimSpace_ObjectIdHex)
  have p: "TrimSpace s = s" using assms(3) by (rule TrimSpace_ObjectIdHex_plain)
  have u: "updateTodo e (r\<lparr>url_id := concat ql @ s @ concat qr\<rparr>) ds =
           (case body r of
              Inl derr \<Rightarrow> (JSON StatusProcessing (DecodeError derr), ds)
            | Inr t \<Rightarrow>
                if Title t = [] then
                  (JSON StatusBadRequest (M [(''message'', JString ''The title is empty!'')]), ds)
                else
                  (case Update (fault e) oid
                          [(''title'', BString (Title t)), (''completed'', BBool (Completed t))] ds of
                     Inl err \<Rightarrow>
                       (JSON StatusProcessing
                          (M [(''message'', JString ''Failed to update todo!''),
                              (''error'', JError err)]), ds)
                   | Inr ds' \<Rightarrow> (Silent, ds')))"
    using assms(3,4) by (simp add: updateTodo_def t split: sum.splits)
  have d: "deleteTodo e (r\<lparr>url_id := concat ql @ s @ concat qr\<rparr>) ds =
           (case RemoveId (fault e) oid ds of
              Inl err \<Rightarrow>
                (JSON StatusProcessing
                   (M [(''message'', JString ''Failed to delete todo!''),
                       (''todo_id'', JString s)]), ds)
            | Inr ds' \<Rightarrow>
                (JSON StatusOK
                   (M [(''message'', JString ''Todo deleted succesfully!''),
                       (''todo_id'', JString s)]), ds'))"
    using assms(3,4) by (simp add: deleteTodo_def t split: sum.splits)
  have u': "updateTodo e (r\<lparr>url_id := concat ql @ s @ concat qr\<rparr>) ds = updateTodo e (r\<lparr>url_id := s\<rparr>) ds"
    by (simp add: updateTodo_def t p)
  have d': "deleteTodo e (r\<lparr>url_id := concat ql @ s @ concat qr\<rparr>) ds = deleteTodo e (r\<lparr>url_id := s\<rparr>) ds"
    by (simp add: deleteTodo_def t p)
  from u d u' d' show ?thesis by blast
qed

theorem path_id_is_trimmed_witness:
  "updateTodo \<lparr>fault = None, new_oid = [], now = 0\<rparr>
      \<lparr>url_id = '' 6162636465666768696a6b6c '',
       body = Inr \<lparr>ID = [], Title = ''b'', Completed = True, CreatedAt = 0\<rparr>\<rparr>
      [[(''_id'', BObjectId ''abcdefghijkl''), (''title'', BString ''a''),
        (''completed'', BBool False), (''created_at'', BTime 7)]]
    = (Silent,
       [[(''_id'', BObjectId ''abcdefghijkl''), (''title'', BString ''b''),
         (''completed'', BBool True)]])
   \<and> deleteTodo \<lparr>fault = None, new_oid = [], now = 0\<rparr>
      \<lparr>url_id = '' 6162636465666768696a6b6c '',
       body = Inr \<lparr>ID = [], Title = ''b'', Completed = True, CreatedAt = 0\<rparr>\<rparr>
      [[(''_id'', BObjectId ''abcdefghijkl''), (''title'', BString ''a''),
        (''completed'', BBool False), (''created_at'', BTime 7)]]
    = (JSON StatusOK
         (M [(''message'', JString ''Todo deleted succesfully!''),
             (''todo_id'', JString ''6162636465666768696a6b6c'')]), [])
   \<and> updateTodo \<lparr>fault = None, new_oid = [], now = 0\<rparr>
      \<lparr>url_id = '' 6162636465666768696a6b6c '',
       body = Inr \<lparr>ID = [], Title = ''b'', Completed = True, CreatedAt = 0\<rparr>\<rparr> []
    = (JSON StatusProcessing
         (M [(''message'', JString ''Failed to update todo!''), (''error'', JError ErrNotFound)]), [])"
proof -
  let ?e = "\<lparr>fault = None, new_oid = [], now = 0\<rparr>"
  let ?r = "\<lparr>url_id = [], body = Inr \<lparr>ID = [], Title = ''b'', Completed = True, CreatedAt = 0\<rparr>\<rparr>"
  let ?d = "[(''_id'', BObjectId ''abcdefghijkl''), (''title'', BString ''a''),
        (''completed'', BBool False), (''created_at'', BTime 7)]"
  have q: "set ['' ''] \<subseteq> set space_seqs" by (simp add: space_seqs_def)
  note a = path_id_is_trimmed [OF q q sample_id(1) sample_id(2), where r = ?r and e = ?e and ds = "[?d]"]
  note b = path_id_is_trimmed [OF q q sample_id(1) sample_id(2), where r = ?r and e = ?e and ds = "[]"]
  have 1: "updateTodo ?e (?r\<lparr>url_id := '' 6162636465666768696a6b6c ''\<rparr>) [?d]
      = (Silent, [[(''_id'', BObjectId ''abcdefghijkl''), (''title'', BString ''b''),
                   (''completed'', BBool True)]])"
    using a by (simp add: Update_def matches_id_def replacement_def)
  have 2: "deleteTodo ?e (?r\<lparr>url_id := '' 6162636465666768696a6b6c ''\<rparr>) [?d]
      = (JSON StatusOK
         (M [(''message'', JString ''Todo deleted succesfully!''),
             (''todo_id'', JString ''6162636465666768696a6b6c'')]), [])"
    using a by (simp add: RemoveId_def matches_id_def)
  have 3: "updateTodo ?e (?r\<lparr>url_id := '' 6162636465666768696a6b6c ''\<rparr>) []
      = (JSON StatusProcessing
         (M [(''message'', JString ''Failed to update todo!''), (''error'', JError ErrNotFound)]), [])"
    using b by (simp add: Update_def)
  from 1 2 3 show ?thesis by simp
qed

subsection \<open>The id and the time of a created record\<close>


end
